theory Spec2Isabelle
  imports Main "HOL-Library.AList"
begin

section \<open>JavaScript values\<close>

text \<open>
  The values that travel through resolver arguments, filter conditions and rows. An
  object is a map from property names to values: the program never enumerates the keys
  of such a value, it only reads properties and spreads one object over another.
  Numbers are integers here (no claim reads a fractional number).
\<close>

datatype jv =
    JUndefined
  | JNull
  | JBool bool
  | JNum int
  | JStr string
  | JArr "jv list"
  | JObj "string \<rightharpoonup> jv"

text \<open>Truthiness, as \<^verbatim>\<open>if (v)\<close> and \<^verbatim>\<open>!v\<close> decide it.\<close>

fun truthy :: "jv \<Rightarrow> bool" where
  "truthy JUndefined = False"
| "truthy JNull = False"
| "truthy (JBool b) = b"
| "truthy (JNum n) = (n \<noteq> 0)"
| "truthy (JStr s) = (s \<noteq> [])"
| "truthy (JArr xs) = True"
| "truthy (JObj m) = True"

text \<open>Truthiness of an optional string (\<^verbatim>\<open>if (cfg.description)\<close>, \<^verbatim>\<open>a || b\<close>).\<close>

fun truthyStr :: "string option \<Rightarrow> bool" where
  "truthyStr None = False"
| "truthyStr (Some s) = (s \<noteq> [])"

text \<open>\<^verbatim>\<open>a || b\<close> on two optional strings.\<close>

definition orStr :: "string option \<Rightarrow> string option \<Rightarrow> string option" where
  "orStr a b = (if truthyStr a then a else b)"

text \<open>Reading a property of an object held as a map: a missing key reads as undefined.\<close>

definition getProp :: "(string \<rightharpoonup> jv) \<Rightarrow> string \<Rightarrow> jv" where
  "getProp m k = (case m k of None \<Rightarrow> JUndefined | Some v \<Rightarrow> v)"

text \<open>Decimal rendering of an array index, the property name of an element.\<close>

definition digitChar :: "nat \<Rightarrow> char" where
  "digitChar d = char_of (48 + d)"

function showNat :: "nat \<Rightarrow> string" where
  "showNat n = (if n < 10 then [digitChar n] else showNat (n div 10) @ [digitChar (n mod 10)])"
  by pat_completeness auto
termination
  by (relation "measure id") auto

text \<open>
  The own enumerable properties that an object spread \<^verbatim>\<open>{...v}\<close> copies: those of an
  object, the indexed elements of an array, the indexed characters of a string, and
  nothing for undefined, null, booleans and numbers.
\<close>

fun ownProps :: "jv \<Rightarrow> (string \<rightharpoonup> jv)" where
  "ownProps (JObj m) = m"
| "ownProps (JArr xs) = map_of (zip (map showNat [0..<length xs]) xs)"
| "ownProps (JStr s) = map_of (zip (map showNat [0..<length s]) (map (\<lambda>c. JStr [c]) s))"
| "ownProps v = Map.empty"

text \<open>\<^verbatim>\<open>{ ...a, ...b }\<close>: the properties of a, overwritten and extended by those of b.\<close>

definition spread :: "jv \<Rightarrow> jv \<Rightarrow> jv" where
  "spread a b = JObj (ownProps a ++ ownProps b)"

section \<open>Errors\<close>

text \<open>
  \<^verbatim>\<open>throw new Error(msg)\<close> and the TypeError of calling a method that an object does
  not have. A rejection of the authorization hook or of the ORM is any value of this type.
\<close>

datatype error = Error string | TypeError string

section \<open>Decorator metadata (decorators/index.ts)\<close>

record GQLFieldConfig =
  fc_type :: "string option"
  fc_nullable :: "bool option"
  fc_list :: "bool option"
  fc_description :: "string option"
  fc_resolver :: "nat option"
  fc_exclude :: "bool option"
  fc_customType :: "string option"

record Operations =
  op_query :: "bool option"
  op_mutation :: "bool option"
  op_subscription :: "bool option"

datatype AuthOperation = OpQuery | OpCreate | OpUpdate | OpDelete

text \<open>
  What the authorization hook gives back: the legacy boolean, the structured result
  \<^verbatim>\<open>{ success, where? }\<close> (an absent \<^verbatim>\<open>where\<close> is \<open>JUndefined\<close>), or a rejection.
\<close>

datatype AuthReturn =
    AuthBool bool
  | AuthResult (success: bool) (auth_where: jv)
  | AuthReject error

text \<open>
  The hook is called with the request, the conditions and the operation tag. It is handed
  the conditions object itself, the one the resolver goes on to spread and to pass to the
  ORM, so what the hook writes into it or deletes from it stays. A call therefore answers
  with two things: what the hook returns, and the conditions object as the hook leaves it.
\<close>

type_synonym AuthHandler = "jv \<Rightarrow> jv \<Rightarrow> AuthOperation \<Rightarrow> AuthReturn \<times> jv"

text \<open>
  The conditions after the call. Only an object or an array can be written to, and it
  stays an object or an array; undefined, null, a boolean, a number or a string comes out
  of the call as it went in.
\<close>

definition afterHook :: "jv \<Rightarrow> jv \<Rightarrow> jv" where
  "afterHook conditions left =
     (case conditions of
        JObj m \<Rightarrow> (case left of JObj m' \<Rightarrow> JObj m' | _ \<Rightarrow> conditions)
      | JArr xs \<Rightarrow> (case left of JArr ys \<Rightarrow> JArr ys | _ \<Rightarrow> conditions)
      | _ \<Rightarrow> conditions)"

record GQLModelConfig =
  typeName :: "string option"
  description :: "string option"
  exclude :: "bool option"
  operations :: "Operations option"
  customFields :: "(string \<times> GQLFieldConfig) list option"
  excludeFields :: "string list option"
  authRequired :: "bool option"
  authHandler :: "AuthHandler option"

text \<open>The empty configuration object \<^verbatim>\<open>{}\<close>.\<close>

definition emptyModelConfig :: GQLModelConfig where
  "emptyModelConfig = \<lparr> typeName = None, description = None, exclude = None,
     operations = None, customFields = None, excludeFields = None,
     authRequired = None, authHandler = None \<rparr>"

definition emptyFieldConfig :: GQLFieldConfig where
  "emptyFieldConfig = \<lparr> fc_type = None, fc_nullable = None, fc_list = None,
     fc_description = None, fc_resolver = None, fc_exclude = None, fc_customType = None \<rparr>"

section \<open>Model classes as the ORM exposes them\<close>

text \<open>
  An attribute descriptor: \<^verbatim>\<open>attr.type?.key\<close>, \<^verbatim>\<open>attr.type?.constructor?.name\<close> and
  \<^verbatim>\<open>attr.allowNull\<close>. \<open>at_type = None\<close> is an attribute without a type.
\<close>

record SeqType =
  st_key :: "string option"
  st_ctorName :: "string option"

record Attribute =
  at_type :: "SeqType option"
  at_allowNull :: "bool option"

record Association =
  as_target :: "string option"
  as_targetModel :: "string option"
  as_associationType :: string

text \<open>
  The class handed to \<^verbatim>\<open>addModel\<close>. \<open>mc_gqlModel\<close> and \<open>mc_gqlFields\<close> are the metadata
  that the decorators \<^verbatim>\<open>@GQLModel\<close> and \<^verbatim>\<open>@GQLField\<close> stored on the class by
  \<^verbatim>\<open>Reflect.defineMetadata\<close>; \<open>None\<close> is a class that was never decorated. Attribute and
  association objects are association lists in the order \<^verbatim>\<open>Object.entries\<close> walks them.
  Property names are ordinary names: none is integer-like (which \<^verbatim>\<open>Object.entries\<close> would
  move to the front) and none is a name every object inherits, so that a lookup of a
  missing name is undefined.
\<close>

record ModelClass =
  mc_name :: string
  mc_gqlModel :: "GQLModelConfig option"
  mc_gqlFields :: "(string \<times> GQLFieldConfig) list option"
  mc_rawAttributes :: "(string \<times> Attribute) list option"
  mc_attributes :: "(string \<times> Attribute) list option"
  mc_associations :: "(string \<times> Association) list option"

text \<open>\<^verbatim>\<open>Reflect.getMetadata(GQL_FIELDS_KEY, target) || {}\<close>\<close>

definition getGQLFields :: "ModelClass \<Rightarrow> (string \<times> GQLFieldConfig) list" where
  "getGQLFields target = (case mc_gqlFields target of None \<Rightarrow> [] | Some fs \<Rightarrow> fs)"

text \<open>\<^verbatim>\<open>Reflect.getMetadata(GQL_MODEL_KEY, target) || {}\<close>\<close>

definition getGQLModelMetadata :: "ModelClass \<Rightarrow> GQLModelConfig" where
  "getGQLModelMetadata target =
     (case mc_gqlModel target of None \<Rightarrow> emptyModelConfig | Some c \<Rightarrow> c)"

section \<open>lib/types.ts\<close>

text \<open>
  The descriptor kept in the registry. \<^verbatim>\<open>tableName\<close> and \<^verbatim>\<open>primaryKeyAttribute\<close> are
  stored by \<^verbatim>\<open>addModel\<close> and read by nothing; they are left out.
\<close>

record SequelizeModel =
  sm_name :: string
  sm_attributes :: "(string \<times> Attribute) list"
  sm_associations :: "(string \<times> Association) list"

record GraphQLFieldType =
  gf_name :: string
  gf_type :: string
  isNullable :: bool
  isList :: bool
  isRelation :: bool
  relationType :: "string option"
  relatedModel :: "string option"

text \<open>
  A resolver function. The generated closures capture the model's name (and, for an
  association, the association's name) and the helper; a resolver contributed from
  outside is opaque and stands as a number.
\<close>

datatype Resolver =
    QueryResolver string
  | ListQueryResolver string
  | CreateMutationResolver string
  | UpdateMutationResolver string
  | DeleteMutationResolver string
  | FieldResolver string string
  | CustomResolver nat

text \<open>
  \<^verbatim>\<open>GraphQLResolver\<close>: an object of objects of functions, both levels in key order. A
  top-level key bound to undefined behaves in every use below like one bound to \<^verbatim>\<open>{}\<close>.
\<close>

type_synonym ResolverMap = "(string \<times> Resolver) list"
type_synonym GraphQLResolver = "(string \<times> ResolverMap) list"

record GraphQLQueryHandler =
  qh_name :: string
  qh_type :: string
  qh_resolver :: Resolver
  qh_description :: "string option"

record GraphQLMutationHandler =
  mh_name :: string
  mh_inputType :: "string option"
  mh_outputType :: string
  mh_resolver :: Resolver
  mh_description :: "string option"

record GraphQLSubscriptionHandler =
  sh_name :: string
  sh_type :: string
  sh_resolver :: Resolver
  sh_description :: "string option"

section \<open>The ORM as a black box\<close>

text \<open>An instance; \<^verbatim>\<open>toJSON()\<close> gives its data values.\<close>

datatype Instance = Instance (toJSON: jv)

record FindOptions =
  fo_where :: "jv option"
  fo_limit :: "jv option"
  fo_offset :: "jv option"
  fo_order :: "jv option"
  fo_include :: "string list option"

text \<open>
  What a model class of the ORM answers. Each resolver makes at most two calls, so the
  answers are functions of the arguments; a rejection is \<open>Inl\<close>.
\<close>

record OrmModel =
  orm_findOne :: "FindOptions \<Rightarrow> error + Instance option"
  orm_findAll :: "FindOptions \<Rightarrow> error + Instance list"
  orm_findByPk :: "jv \<Rightarrow> FindOptions option \<Rightarrow> error + Instance option"
  orm_create :: "jv \<Rightarrow> error + Instance"
  orm_update :: "Instance \<Rightarrow> jv \<Rightarrow> error + Instance"
  orm_destroy :: "Instance \<Rightarrow> error + unit"

text \<open>The ORM operations a resolver invoked, in order, with the model's name.\<close>

datatype OrmCall =
    FindOne string FindOptions
  | FindAll string FindOptions
  | FindByPk string jv "FindOptions option"
  | Create string jv
  | Update string Instance jv
  | Destroy string Instance

text \<open>What a resolver hands back to the execution engine.\<close>

datatype RVal = VJson jv | VList "jv list" | VInstance Instance

type_synonym Outcome = "(error + RVal) \<times> OrmCall list"

text \<open>\<^verbatim>\<open>sequelize\<close>, of which only \<^verbatim>\<open>sequelize.models\<close> is read.\<close>

record Sequelize =
  sq_models :: "(string \<rightharpoonup> OrmModel) option"

section \<open>GraphQLHelper: the registry (lib/GraphQLHelper.ts)\<close>

record ModelMeta =
  modelConfig :: GQLModelConfig
  fieldConfigs :: "(string \<times> GQLFieldConfig) list"

text \<open>
  The fields of the class. The two \<^verbatim>\<open>Map\<close>s are association lists in insertion order
  (\<^verbatim>\<open>set\<close> on a key already present keeps its place, which is \<open>AList.update\<close>); the two
  \<^verbatim>\<open>Set\<close>s are lists without repetition, of which only \<^verbatim>\<open>has\<close> and \<^verbatim>\<open>size\<close> are read.
\<close>

record GraphQLHelper =
  models :: "(string \<times> SequelizeModel) list"
  customResolvers :: "GraphQLResolver list"
  customTypes :: "string list"
  customQueries :: "GraphQLQueryHandler list"
  customMutations :: "GraphQLMutationHandler list"
  customSubscriptions :: "GraphQLSubscriptionHandler list"
  blackList :: "string list"
  whiteList :: "string list"
  modelMetadata :: "(string \<times> ModelMeta) list"
  sequelize :: "Sequelize option"

definition newGraphQLHelper :: "Sequelize option \<Rightarrow> GraphQLHelper" where
  "newGraphQLHelper sq = \<lparr> models = [], customResolvers = [], customTypes = [],
     customQueries = [], customMutations = [], customSubscriptions = [],
     blackList = [], whiteList = [], modelMetadata = [], sequelize = sq \<rparr>"

text \<open>\<^verbatim>\<open>a || b || {}\<close> on two optional objects (an object is always truthy).\<close>

definition orObj :: "'a list option \<Rightarrow> 'a list option \<Rightarrow> 'a list" where
  "orObj a b = (case a of Some x \<Rightarrow> x | None \<Rightarrow> (case b of Some y \<Rightarrow> y | None \<Rightarrow> []))"

text \<open>
  \<^verbatim>\<open>addModel\<close>. \<^verbatim>\<open>getGQLModelMetadata\<close> returns an object in every case, so the test
  \<^verbatim>\<open>!modelConfig\<close> of the source is false and only \<^verbatim>\<open>modelConfig.exclude\<close> decides.
\<close>

definition addModel :: "ModelClass \<Rightarrow> GraphQLHelper \<Rightarrow> GraphQLHelper" where
  "addModel model h =
     (let modelName = mc_name model in
      if modelName \<in> set (blackList h) then h
      else
        let modelConfig = getGQLModelMetadata model;
            fieldConfigs = getGQLFields model
        in if exclude modelConfig = Some True then h
           else
             let sequelizeModel = \<lparr> sm_name = modelName,
                   sm_attributes = orObj (mc_rawAttributes model) (mc_attributes model),
                   sm_associations = orObj (mc_associations model) None \<rparr>
             in h \<lparr> models := AList.update modelName sequelizeModel (models h),
                    modelMetadata := AList.update modelName
                      \<lparr> modelConfig = modelConfig, fieldConfigs = fieldConfigs \<rparr>
                      (modelMetadata h) \<rparr>)"

definition addResolver :: "GraphQLResolver \<Rightarrow> GraphQLHelper \<Rightarrow> GraphQLHelper" where
  "addResolver resolver h = h \<lparr> customResolvers := customResolvers h @ [resolver] \<rparr>"

definition addType :: "string \<Rightarrow> GraphQLHelper \<Rightarrow> GraphQLHelper" where
  "addType typeDefinition h = h \<lparr> customTypes := customTypes h @ [typeDefinition] \<rparr>"

definition addQuery :: "GraphQLQueryHandler \<Rightarrow> GraphQLHelper \<Rightarrow> GraphQLHelper" where
  "addQuery queryHandler h = h \<lparr> customQueries := customQueries h @ [queryHandler] \<rparr>"

definition addMutation :: "GraphQLMutationHandler \<Rightarrow> GraphQLHelper \<Rightarrow> GraphQLHelper" where
  "addMutation mutationHandler h = h \<lparr> customMutations := customMutations h @ [mutationHandler] \<rparr>"

definition addSubscription :: "GraphQLSubscriptionHandler \<Rightarrow> GraphQLHelper \<Rightarrow> GraphQLHelper" where
  "addSubscription subscriptionHandler h =
     h \<lparr> customSubscriptions := customSubscriptions h @ [subscriptionHandler] \<rparr>"

text \<open>\<^verbatim>\<open>Set.add\<close>\<close>

definition setAdd :: "string \<Rightarrow> string list \<Rightarrow> string list" where
  "setAdd x xs = (if x \<in> set xs then xs else xs @ [x])"

definition addToBlackList :: "string \<Rightarrow> GraphQLHelper \<Rightarrow> GraphQLHelper" where
  "addToBlackList pattern h = h \<lparr> blackList := setAdd pattern (blackList h) \<rparr>"


definition isFieldBlacklisted :: "GraphQLHelper \<Rightarrow> string \<Rightarrow> string \<Rightarrow> bool" where
  "isFieldBlacklisted h modelName fieldName =
     (modelName @ ''.'' @ fieldName \<in> set (blackList h) \<or>
      fieldName \<in> set (blackList h) \<or>
      modelName \<in> set (blackList h))"

text \<open>
  The guard that opens each of the four iterations over \<^verbatim>\<open>this.models\<close>:
  \<^verbatim>\<open>if (this.whiteList.size > 0 && !this.whiteList.has(modelName)) continue;\<close>
  \<open>includedModels\<close> is the registry entries on which the loop body runs.
\<close>

definition skippedByWhiteList :: "GraphQLHelper \<Rightarrow> string \<Rightarrow> bool" where
  "skippedByWhiteList h modelName = (whiteList h \<noteq> [] \<and> modelName \<notin> set (whiteList h))"

definition includedModels :: "GraphQLHelper \<Rightarrow> (string \<times> SequelizeModel) list" where
  "includedModels h = filter (\<lambda>(modelName, model). \<not> skippedByWhiteList h modelName) (models h)"

text \<open>\<^verbatim>\<open>this.modelMetadata.get(name)?.modelConfig\<close> and \<^verbatim>\<open>?.fieldConfigs || {}\<close>\<close>

definition modelConfigOf :: "GraphQLHelper \<Rightarrow> string \<Rightarrow> GQLModelConfig option" where
  "modelConfigOf h name = map_option modelConfig (map_of (modelMetadata h) name)"

definition fieldConfigsOf :: "GraphQLHelper \<Rightarrow> string \<Rightarrow> (string \<times> GQLFieldConfig) list" where
  "fieldConfigsOf h name =
     (case map_of (modelMetadata h) name of None \<Rightarrow> [] | Some md \<Rightarrow> fieldConfigs md)"

section \<open>GraphQLHelper: fields of a model\<close>

definition typeMap :: "(string \<times> string) list" where
  "typeMap = [(''STRING'', ''String''), (''TEXT'', ''String''), (''INTEGER'', ''Int''),
     (''BIGINT'', ''String''), (''FLOAT'', ''Float''), (''DOUBLE'', ''Float''),
     (''DECIMAL'', ''Float''), (''BOOLEAN'', ''Boolean''), (''DATE'', ''String''),
     (''DATEONLY'', ''String''), (''TIME'', ''String''), (''JSON'', ''String''),
     (''UUID'', ''String'')]"

text \<open>\<^verbatim>\<open>attr.type?.key || attr.type?.constructor?.name || 'STRING'\<close>\<close>

definition sequelizeTypeOf :: "Attribute \<Rightarrow> string" where
  "sequelizeTypeOf attr =
     (case orStr (Option.bind (at_type attr) st_key) (Option.bind (at_type attr) st_ctorName) of
        Some s \<Rightarrow> (if s \<noteq> [] then s else ''STRING'')
      | None \<Rightarrow> ''STRING'')"

definition convertSequelizeAttributeToGraphQLField ::
  "string \<Rightarrow> Attribute \<Rightarrow> GQLFieldConfig option \<Rightarrow> GraphQLFieldType option" where
  "convertSequelizeAttributeToGraphQLField name attr fieldConfig =
     (let sequelizeType = sequelizeTypeOf attr;
          graphQLType = (case map_of typeMap sequelizeType of Some t \<Rightarrow> t | None \<Rightarrow> ''String'');
          isNullable' = (case Option.bind fieldConfig fc_nullable of
                           Some b \<Rightarrow> b
                         | None \<Rightarrow> at_allowNull attr \<noteq> Some False);
          isList' = (Option.bind fieldConfig fc_list = Some True)
      in Some \<lparr> gf_name = name, gf_type = graphQLType, isNullable = isNullable',
                isList = isList', isRelation = False,
                relationType = None, relatedModel = None \<rparr>)"

definition convertSequelizeAssociationToGraphQLField ::
  "string \<Rightarrow> Association \<Rightarrow> GQLFieldConfig option \<Rightarrow> GraphQLFieldType option" where
  "convertSequelizeAssociationToGraphQLField name assoc fieldConfig =
     (case orStr (as_target assoc) (as_targetModel assoc) of
        None \<Rightarrow> None
      | Some targetModel \<Rightarrow>
          if targetModel = [] then None
          else
            let isList' = (case Option.bind fieldConfig fc_list of
                             Some b \<Rightarrow> b
                           | None \<Rightarrow> as_associationType assoc = ''HasMany'' \<or>
                                      as_associationType assoc = ''BelongsToMany'');
                isNullable' = (case Option.bind fieldConfig fc_nullable of
                                 Some b \<Rightarrow> b
                               | None \<Rightarrow> (if as_associationType assoc = ''BelongsTo''
                                           then False else True))
            in Some \<lparr> gf_name = name, gf_type = targetModel, isNullable = isNullable',
                      isList = isList', isRelation = True,
                      relationType = Some (as_associationType assoc),
                      relatedModel = Some targetModel \<rparr>)"

text \<open>
  The body of each of the two iterations in \<^verbatim>\<open>extractModelFields\<close>: skip a blacklisted name,
  skip a field whose decorator says \<^verbatim>\<open>exclude\<close>, convert, and push unless null.
\<close>

definition extractOne ::
  "GraphQLHelper \<Rightarrow> string \<Rightarrow> (string \<times> GQLFieldConfig) list \<Rightarrow>
   (string \<Rightarrow> 'd \<Rightarrow> GQLFieldConfig option \<Rightarrow> GraphQLFieldType option) \<Rightarrow>
   string \<times> 'd \<Rightarrow> GraphQLFieldType option" where
  "extractOne h modelName fcs convert entry =
     (case entry of (name, def) \<Rightarrow>
        if isFieldBlacklisted h modelName name then None
        else
          let fieldConfig = map_of fcs name
          in if Option.bind fieldConfig fc_exclude = Some True then None
             else convert name def fieldConfig)"

definition extractModelFields :: "GraphQLHelper \<Rightarrow> SequelizeModel \<Rightarrow> GraphQLFieldType list" where
  "extractModelFields h model =
     (let fcs = fieldConfigsOf h (sm_name model)
      in List.map_filter
           (extractOne h (sm_name model) fcs convertSequelizeAttributeToGraphQLField)
           (sm_attributes model)
         @ List.map_filter
           (extractOne h (sm_name model) fcs convertSequelizeAssociationToGraphQLField)
           (sm_associations model))"

section \<open>GraphQLHelper: type definitions\<close>

definition NL :: string where
  "NL = [CHR 0x0A]"

text \<open>The three double quotes that open and close a description.\<close>

definition TQ :: string where
  "TQ = [CHR 0x22, CHR 0x22, CHR 0x22]"

text \<open>The type of a field as it is printed: list brackets, then the non-null mark.\<close>

definition fieldTypeText :: "GraphQLFieldType \<Rightarrow> string" where
  "fieldTypeText field =
     (let fieldType = (if isList field then ''['' @ gf_type field @ '']'' else gf_type field)
      in if isNullable field then fieldType @ [] else fieldType @ ''!'')"

text \<open>What one iteration of the field loop appends: the description, if any, and the field.\<close>

definition fieldText :: "(string \<times> GQLFieldConfig) list \<Rightarrow> GraphQLFieldType \<Rightarrow> string" where
  "fieldText fcs field =
     (let d = Option.bind (map_of fcs (gf_name field)) fc_description
      in (if truthyStr d then ''  '' @ TQ @ the d @ TQ @ NL else [])
         @ ''  '' @ gf_name field @ '': '' @ fieldTypeText field @ NL)"

text \<open>The fields on which the loop of \<^verbatim>\<open>generateModelType\<close> does not \<^verbatim>\<open>continue\<close>.\<close>

definition typeFields :: "GraphQLHelper \<Rightarrow> SequelizeModel \<Rightarrow> GraphQLFieldType list" where
  "typeFields h model =
     filter (\<lambda>field. \<not> isFieldBlacklisted h (sm_name model) (gf_name field))
       (extractModelFields h model)"

text \<open>The same for \<^verbatim>\<open>generateModelInputType\<close>, which also skips relations.\<close>

definition inputFields :: "GraphQLHelper \<Rightarrow> SequelizeModel \<Rightarrow> GraphQLFieldType list" where
  "inputFields h model =
     filter (\<lambda>field. \<not> (isFieldBlacklisted h (sm_name model) (gf_name field) \<or> isRelation field))
       (extractModelFields h model)"

definition typeHeader :: "GQLModelConfig option \<Rightarrow> string" where
  "typeHeader cfg =
     (if truthyStr (Option.bind cfg description) then
        TQ @ (the (Option.bind cfg description)
              @ (if Option.bind cfg authRequired = Some True
                 then '' (Requires authentication)'' else []))
        @ TQ @ NL
      else if Option.bind cfg authRequired = Some True then
        TQ @ ''Requires authentication'' @ TQ @ NL
      else [])"

definition generateModelType :: "GraphQLHelper \<Rightarrow> SequelizeModel \<Rightarrow> string" where
  "generateModelType h model =
     typeHeader (modelConfigOf h (sm_name model))
     @ ''type '' @ sm_name model @ '' {'' @ NL
     @ concat (map (fieldText (fieldConfigsOf h (sm_name model))) (typeFields h model))
     @ ''}'' @ NL"

definition generateModelInputType :: "GraphQLHelper \<Rightarrow> SequelizeModel \<Rightarrow> string" where
  "generateModelInputType h model =
     ''input '' @ sm_name model @ ''Input {'' @ NL
     @ concat (map (fieldText (fieldConfigsOf h (sm_name model))) (inputFields h model))
     @ ''}'' @ NL"

section \<open>GraphQLHelper: root operations\<close>

text \<open>
  \<^verbatim>\<open>String.prototype.toLowerCase\<close> on one character. A \<open>char\<close> has 256 values, which are
  the code units U+0000 to U+00FF of a JavaScript string (Latin-1); a name with a code
  unit above U+00FF cannot be written in \<open>string\<close>. On these code units the lower-case
  mapping of Unicode moves A to Z (U+0041 to U+005A) and the capital letters U+00C0 to
  U+00DE, the multiplication sign U+00D7 apart, up by 32, and leaves every other one as it
  is; none of them maps to more than one code unit.
\<close>

definition toLowerCaseChar :: "char \<Rightarrow> char" where
  "toLowerCaseChar c =
     (let n = (of_char c :: nat)
      in if (65 \<le> n \<and> n \<le> 90) \<or> (192 \<le> n \<and> n \<le> 222 \<and> n \<noteq> 215)
         then char_of (n + 32) else c)"

text \<open>\<^verbatim>\<open>modelName.charAt(0).toLowerCase() + modelName.slice(1)\<close>\<close>

definition queryNameOf :: "string \<Rightarrow> string" where
  "queryNameOf modelName =
     (case modelName of [] \<Rightarrow> [] | c # cs \<Rightarrow> toLowerCaseChar c # cs)"

definition allOperations :: Operations where
  "allOperations = \<lparr> op_query = Some True, op_mutation = Some True, op_subscription = Some True \<rparr>"

text \<open>
  \<^verbatim>\<open>modelConfig?.operations || { query: true, mutation: true, subscription: true }\<close>,
  written out in \<^verbatim>\<open>generateRootTypes\<close> and again in \<^verbatim>\<open>generateResolvers\<close>.
\<close>

definition operationsOf :: "GQLModelConfig option \<Rightarrow> Operations" where
  "operationsOf cfg =
     (case Option.bind cfg operations of Some ops \<Rightarrow> ops | None \<Rightarrow> allOperations)"

text \<open>The lines one model adds to each of the three root types.\<close>

definition modelQueryFields :: "GraphQLHelper \<Rightarrow> string \<Rightarrow> string list" where
  "modelQueryFields h modelName =
     (if op_query (operationsOf (modelConfigOf h modelName)) = Some True then
        [''  '' @ queryNameOf modelName @ ''(id: String!): '' @ modelName @ NL,
         ''  '' @ queryNameOf modelName
           @ ''List(where: JSON, limit: Int, offset: Int, order: String): ['' @ modelName @ '']'' @ NL]
      else [])"

definition modelMutationFields :: "GraphQLHelper \<Rightarrow> string \<Rightarrow> string list" where
  "modelMutationFields h modelName =
     (if op_mutation (operationsOf (modelConfigOf h modelName)) = Some True then
        [''  create'' @ modelName @ ''(input: '' @ modelName @ ''Input!): '' @ modelName @ NL,
         ''  update'' @ modelName @ ''(id: String!, input: '' @ modelName @ ''Input!): ''
           @ modelName @ NL,
         ''  delete'' @ modelName @ ''(id: String!): Boolean'' @ NL]
      else [])"

definition modelSubscriptionFields :: "GraphQLHelper \<Rightarrow> string \<Rightarrow> string list" where
  "modelSubscriptionFields h modelName =
     (if op_subscription (operationsOf (modelConfigOf h modelName)) = Some True then
        [''  '' @ queryNameOf modelName @ ''Created: '' @ modelName @ NL,
         ''  '' @ queryNameOf modelName @ ''Updated: '' @ modelName @ NL,
         ''  '' @ queryNameOf modelName @ ''Deleted(id: String!): '' @ modelName @ NL]
      else [])"

definition descriptionLine :: "string option \<Rightarrow> string list" where
  "descriptionLine d = (if truthyStr d then [''  '' @ TQ @ the d @ TQ @ NL] else [])"

definition customQueryFields :: "GraphQLQueryHandler \<Rightarrow> string list" where
  "customQueryFields query =
     descriptionLine (qh_description query)
     @ [''  '' @ qh_name query @ '': '' @ qh_type query @ NL]"

definition customMutationFields :: "GraphQLMutationHandler \<Rightarrow> string list" where
  "customMutationFields mutation =
     descriptionLine (mh_description mutation)
     @ [''  '' @ mh_name mutation
        @ (if truthyStr (mh_inputType mutation)
           then ''(input: '' @ the (mh_inputType mutation) @ ''!)'' else [])
        @ '': '' @ mh_outputType mutation @ NL]"

definition customSubscriptionFields :: "GraphQLSubscriptionHandler \<Rightarrow> string list" where
  "customSubscriptionFields subscription =
     descriptionLine (sh_description subscription)
     @ [''  '' @ sh_name subscription @ '': '' @ sh_type subscription @ NL]"

text \<open>The pieces appended to \<^verbatim>\<open>queryFields\<close>, \<^verbatim>\<open>mutationFields\<close>, \<^verbatim>\<open>subscriptionFields\<close>, in order.\<close>

definition queryFields :: "GraphQLHelper \<Rightarrow> string list" where
  "queryFields h =
     concat (map (\<lambda>(modelName, model). modelQueryFields h modelName) (includedModels h))
     @ concat (map customQueryFields (customQueries h))"

definition mutationFields :: "GraphQLHelper \<Rightarrow> string list" where
  "mutationFields h =
     concat (map (\<lambda>(modelName, model). modelMutationFields h modelName) (includedModels h))
     @ concat (map customMutationFields (customMutations h))"

definition subscriptionFields :: "GraphQLHelper \<Rightarrow> string list" where
  "subscriptionFields h =
     concat (map (\<lambda>(modelName, model). modelSubscriptionFields h modelName) (includedModels h))
     @ concat (map customSubscriptionFields (customSubscriptions h))"

definition indent12 :: string where
  "indent12 = replicate 12 (CHR '' '')"

definition generateRootTypes :: "GraphQLHelper \<Rightarrow> string" where
  "generateRootTypes h =
     NL @ indent12 @ ''type Query {'' @ NL
     @ concat (queryFields h) @ NL
     @ indent12 @ ''}'' @ NL
     @ indent12 @ ''type Mutation {'' @ NL
     @ concat (mutationFields h) @ NL
     @ indent12 @ ''}'' @ NL
     @ indent12 @ ''type Subscription {'' @ NL
     @ concat (subscriptionFields h) @ NL
     @ indent12 @ ''}'' @ NL
     @ replicate 8 (CHR '' '')"

definition generateTypeDefs :: "GraphQLHelper \<Rightarrow> string" where
  "generateTypeDefs h =
     ''scalar JSON'' @ NL @ NL
     @ concat (map (\<lambda>t. t @ NL) (customTypes h))
     @ concat (map (\<lambda>(modelName, model). generateModelType h model @ NL) (includedModels h))
     @ concat (map (\<lambda>(modelName, model). generateModelInputType h model @ NL) (includedModels h))
     @ generateRootTypes h"

section \<open>GraphQLHelper: the resolver map\<close>

text \<open>\<^verbatim>\<open>resolvers[section] || {}\<close>\<close>

definition sectionOf :: "GraphQLResolver \<Rightarrow> string \<Rightarrow> ResolverMap" where
  "sectionOf rs sec = (case map_of rs sec of Some m \<Rightarrow> m | None \<Rightarrow> [])"

text \<open>
  \<^verbatim>\<open>resolvers.Query![key] = fn\<close>. The three root sections are present from the start
  and are only ever replaced by objects, so the section read never fails.
\<close>

definition setIn :: "GraphQLResolver \<Rightarrow> string \<Rightarrow> string \<Rightarrow> Resolver \<Rightarrow> GraphQLResolver" where
  "setIn rs sec key fn = AList.update sec (AList.update key fn (sectionOf rs sec)) rs"

text \<open>\<^verbatim>\<open>Object.assign(target, source)\<close>: each property of the source, in order.\<close>

definition objectAssign :: "ResolverMap \<Rightarrow> ResolverMap \<Rightarrow> ResolverMap" where
  "objectAssign target source = foldl (\<lambda>acc (k, v). AList.update k v acc) target source"

definition generateFieldResolvers :: "GraphQLHelper \<Rightarrow> SequelizeModel \<Rightarrow> ResolverMap" where
  "generateFieldResolvers h model =
     foldl (\<lambda>resolvers (assocName, assocDef).
              if isFieldBlacklisted h (sm_name model) assocName then resolvers
              else AList.update assocName (FieldResolver (sm_name model) assocName) resolvers)
       [] (sm_associations model)"

text \<open>The body of the loop over the models in \<^verbatim>\<open>generateResolvers\<close>.\<close>

definition modelResolvers ::
  "GraphQLHelper \<Rightarrow> GraphQLResolver \<Rightarrow> string \<times> SequelizeModel \<Rightarrow> GraphQLResolver" where
  "modelResolvers h rs entry =
     (case entry of (modelName, model) \<Rightarrow>
        let ops = operationsOf (modelConfigOf h modelName);
            rs1 = (if op_query ops = Some True then
                     let queryName = queryNameOf modelName
                     in setIn (setIn rs ''Query'' queryName (QueryResolver (sm_name model)))
                          ''Query'' (queryName @ ''List'') (ListQueryResolver (sm_name model))
                   else rs);
            rs2 = (if op_mutation ops = Some True then
                     setIn (setIn (setIn rs1
                       ''Mutation'' (''create'' @ modelName) (CreateMutationResolver (sm_name model)))
                       ''Mutation'' (''update'' @ modelName) (UpdateMutationResolver (sm_name model)))
                       ''Mutation'' (''delete'' @ modelName) (DeleteMutationResolver (sm_name model))
                   else rs1)
        in AList.update modelName (generateFieldResolvers h model) rs2)"

text \<open>The body of the loop over the custom resolver objects.\<close>

definition mergeCustomResolver :: "GraphQLResolver \<Rightarrow> GraphQLResolver \<Rightarrow> GraphQLResolver" where
  "mergeCustomResolver rs customResolver =
     (let rs1 = AList.update ''Query''
                  (objectAssign (sectionOf rs ''Query'') (sectionOf customResolver ''Query'')) rs;
          rs2 = AList.update ''Mutation''
                  (objectAssign (sectionOf rs1 ''Mutation'') (sectionOf customResolver ''Mutation'')) rs1;
          rs3 = AList.update ''Subscription''
                  (objectAssign (sectionOf rs2 ''Subscription'')
                     (sectionOf customResolver ''Subscription'')) rs2
      in foldl (\<lambda>acc (key, value).
                  if key \<noteq> ''Query'' \<and> key \<noteq> ''Mutation'' \<and> key \<noteq> ''Subscription''
                  then AList.update key (objectAssign (objectAssign [] (sectionOf acc key)) value) acc
                  else acc)
           rs3 customResolver)"

definition emptyResolvers :: GraphQLResolver where
  "emptyResolvers = [(''Query'', []), (''Mutation'', []), (''Subscription'', [])]"

text \<open>The resolver map after the loop over the models, before anything custom is merged.\<close>

definition modelsResolvers :: "GraphQLHelper \<Rightarrow> GraphQLResolver" where
  "modelsResolvers h = foldl (modelResolvers h) emptyResolvers (includedModels h)"

definition generateResolvers :: "GraphQLHelper \<Rightarrow> GraphQLResolver" where
  "generateResolvers h =
     (let rs1 = modelsResolvers h;
          rs2 = foldl mergeCustomResolver rs1 (customResolvers h);
          rs3 = foldl (\<lambda>rs query. setIn rs ''Query'' (qh_name query) (qh_resolver query))
                  rs2 (customQueries h);
          rs4 = foldl (\<lambda>rs mutation. setIn rs ''Mutation'' (mh_name mutation) (mh_resolver mutation))
                  rs3 (customMutations h)
      in foldl (\<lambda>rs subscription.
                  setIn rs ''Subscription'' (sh_name subscription) (sh_resolver subscription))
           rs4 (customSubscriptions h))"

record Schema =
  typeDefs :: string
  resolvers :: GraphQLResolver

text \<open>
  \<^verbatim>\<open>getSchema\<close>, a method of the helper: it returns the schema together with the helper
  as the call leaves it. Nothing in it assigns to a field of \<^verbatim>\<open>this\<close>.
\<close>

definition getSchema :: "GraphQLHelper \<Rightarrow> Schema \<times> GraphQLHelper" where
  "getSchema h = (\<lparr> typeDefs = generateTypeDefs h, resolvers = generateResolvers h \<rparr>, h)"


section \<open>A model without one of its fields\<close>

text \<open>
  The descriptor a model would have without any attribute or association of a given name,
  and the registry in which the descriptors of one model name are so reduced. Nothing in
  the program computes these; they say what "the field is not there" means.
\<close>

definition withoutField :: "string \<Rightarrow> SequelizeModel \<Rightarrow> SequelizeModel" where
  "withoutField f model =
     model \<lparr> sm_attributes := filter (\<lambda>(n, a). n \<noteq> f) (sm_attributes model),
             sm_associations := filter (\<lambda>(n, a). n \<noteq> f) (sm_associations model) \<rparr>"

definition dropField :: "string \<Rightarrow> string \<Rightarrow> GraphQLHelper \<Rightarrow> GraphQLHelper" where
  "dropField modelName f h =
     h \<lparr> models := map (\<lambda>(n, m). (n, if sm_name m = modelName then withoutField f m else m))
                     (models h) \<rparr>"

section \<open>GraphQLHelper: what the generated resolvers do\<close>

text \<open>
  What \<^verbatim>\<open>getModelClass\<close> returns: the ORM's class from \<^verbatim>\<open>sequelize.models\<close>, or, without
  a \<^verbatim>\<open>sequelize\<close>, the registry's descriptor, which has no \<^verbatim>\<open>findOne\<close>, \<^verbatim>\<open>findAll\<close> or
  \<^verbatim>\<open>create\<close>. \<open>None\<close> is undefined.
\<close>

datatype Handle = OrmClass OrmModel | Descriptor SequelizeModel

definition getModelClass :: "GraphQLHelper \<Rightarrow> string \<Rightarrow> Handle option" where
  "getModelClass h modelName =
     (case Option.bind (sequelize h) sq_models of
        Some ms \<Rightarrow> map_option OrmClass (ms modelName)
      | None \<Rightarrow> map_option Descriptor
                  (find (\<lambda>m. sm_name m = modelName) (map snd (models h))))"

text \<open>
  The authorization block that each of the five resolvers carries. \<open>Inl\<close> is the error
  thrown. \<open>Inr (c, extra)\<close> is the way through: c is the conditions object as it now
  stands (as the hook left it, when the hook was called), and \<open>extra\<close> is \<open>Some w\<close> for a
  structured success whose \<^verbatim>\<open>where\<close> is truthy, which the resolvers with filter
  conditions spread over c, and \<open>None\<close> otherwise.
\<close>

definition authGate ::
  "GQLModelConfig option \<Rightarrow> jv \<Rightarrow> jv \<Rightarrow> AuthOperation \<Rightarrow> error + (jv \<times> jv option)" where
  "authGate cfg req conditions operation =
     (if Option.bind cfg authRequired = Some True then
        (case Option.bind cfg authHandler of
           None \<Rightarrow> Inl (Error ''Access denied'')
         | Some handler \<Rightarrow>
             (case handler req conditions operation of
                (authResult, left) \<Rightarrow>
                  (case authResult of
                     AuthReject e \<Rightarrow> Inl e
                   | AuthBool b \<Rightarrow>
                       (if \<not> b then Inl (Error ''Access denied'')
                        else Inr (afterHook conditions left, None))
                   | AuthResult ok w \<Rightarrow>
                       (if \<not> ok then Inl (Error ''Access denied'')
                        else if truthy w then Inr (afterHook conditions left, Some w)
                        else Inr (afterHook conditions left, None)))))
      else Inr (conditions, None))"

text \<open>
  \<^verbatim>\<open>whereConditions = { ...whereConditions, ...authResult.where }\<close>, when there is
  one; the \<^verbatim>\<open>whereConditions\<close> on the right is the object the hook was handed.
\<close>

definition mergeWhere :: "jv \<Rightarrow> jv option \<Rightarrow> jv" where
  "mergeWhere conditions extra =
     (case extra of None \<Rightarrow> conditions | Some w \<Rightarrow> spread conditions w)"

definition noOptions :: FindOptions where
  "noOptions = \<lparr> fo_where = None, fo_limit = None, fo_offset = None, fo_order = None,
     fo_include = None \<rparr>"

text \<open>Calls on the handle; on the registry's descriptor the method is not a function.\<close>

definition callFindOne :: "Handle \<Rightarrow> string \<Rightarrow> FindOptions \<Rightarrow> (error + Instance option) \<times> OrmCall list" where
  "callFindOne cls name opts =
     (case cls of
        OrmClass m \<Rightarrow> (orm_findOne m opts, [FindOne name opts])
      | Descriptor d \<Rightarrow> (Inl (TypeError ''ModelClass.findOne is not a function''), []))"

definition callFindAll :: "Handle \<Rightarrow> string \<Rightarrow> FindOptions \<Rightarrow> (error + Instance list) \<times> OrmCall list" where
  "callFindAll cls name opts =
     (case cls of
        OrmClass m \<Rightarrow> (orm_findAll m opts, [FindAll name opts])
      | Descriptor d \<Rightarrow> (Inl (TypeError ''ModelClass.findAll is not a function''), []))"

definition callCreate :: "Handle \<Rightarrow> string \<Rightarrow> jv \<Rightarrow> (error + Instance) \<times> OrmCall list" where
  "callCreate cls name values =
     (case cls of
        OrmClass m \<Rightarrow> (orm_create m values, [Create name values])
      | Descriptor d \<Rightarrow> (Inl (TypeError ''ModelClass.create is not a function''), []))"

type_synonym Args = "string \<rightharpoonup> jv"

definition generateQueryResolver :: "GraphQLHelper \<Rightarrow> string \<Rightarrow> Args \<Rightarrow> Args \<Rightarrow> Outcome" where
  "generateQueryResolver h name args context =
     (case getModelClass h name of
        None \<Rightarrow> (Inr (VJson JNull), [])
      | Some cls \<Rightarrow>
          let whereConditions = JObj [''id'' \<mapsto> getProp args ''id'']
          in (case authGate (modelConfigOf h name) (getProp context ''req'') whereConditions OpQuery of
                Inl e \<Rightarrow> (Inl e, [])
              | Inr (conditions, extra) \<Rightarrow>
                  (case callFindOne cls name (noOptions \<lparr> fo_where := Some (mergeWhere conditions extra) \<rparr>) of
                     (Inl e, calls) \<Rightarrow> (Inl e, calls)
                   | (Inr None, calls) \<Rightarrow> (Inr (VJson JNull), calls)
                   | (Inr (Some result), calls) \<Rightarrow> (Inr (VJson (toJSON result)), calls))))"

text \<open>\<^verbatim>\<open>if (limit) options.limit = limit\<close>\<close>

definition optionIf :: "jv \<Rightarrow> jv option" where
  "optionIf v = (if truthy v then Some v else None)"

definition generateListQueryResolver :: "GraphQLHelper \<Rightarrow> string \<Rightarrow> Args \<Rightarrow> Args \<Rightarrow> Outcome" where
  "generateListQueryResolver h name args context =
     (case getModelClass h name of
        None \<Rightarrow> (Inr (VList []), [])
      | Some cls \<Rightarrow>
          let inputWhere = getProp args ''where''
          in (case authGate (modelConfigOf h name) (getProp context ''req'') inputWhere OpQuery of
                Inl e \<Rightarrow> (Inl e, [])
              | Inr (conditions, extra) \<Rightarrow>
                  (case callFindAll cls name
                          \<lparr> fo_where = Some (mergeWhere conditions extra),
                            fo_limit = optionIf (getProp args ''limit''),
                            fo_offset = optionIf (getProp args ''offset''),
                            fo_order = optionIf (getProp args ''order''),
                            fo_include = None \<rparr> of
                     (Inl e, calls) \<Rightarrow> (Inl e, calls)
                   | (Inr results, calls) \<Rightarrow> (Inr (VList (map toJSON results)), calls))))"

text \<open>
  The create resolver declares \<^verbatim>\<open>let _input = null\<close>, hands \<^verbatim>\<open>input\<close> to the hook, and
  calls \<^verbatim>\<open>ModelClass.create(_input)\<close>; nothing assigns to \<^verbatim>\<open>_input\<close>.
\<close>

definition generateCreateMutationResolver :: "GraphQLHelper \<Rightarrow> string \<Rightarrow> Args \<Rightarrow> Args \<Rightarrow> Outcome" where
  "generateCreateMutationResolver h name args context =
     (case getModelClass h name of
        None \<Rightarrow> (Inr (VJson JNull), [])
      | Some cls \<Rightarrow>
          let input = getProp args ''input'';
              input' = JNull
          in (case authGate (modelConfigOf h name) (getProp context ''req'') input OpCreate of
                Inl e \<Rightarrow> (Inl e, [])
              | Inr (conditions, extra) \<Rightarrow>
                  (case callCreate cls name input' of
                     (Inl e, calls) \<Rightarrow> (Inl e, calls)
                   | (Inr created, calls) \<Rightarrow> (Inr (VInstance created), calls))))"

text \<open>
  \<^verbatim>\<open>await instance.update(input); return instance\<close>: the instance handed back is the one
  \<^verbatim>\<open>update\<close> left behind.
\<close>

definition generateUpdateMutationResolver :: "GraphQLHelper \<Rightarrow> string \<Rightarrow> Args \<Rightarrow> Args \<Rightarrow> Outcome" where
  "generateUpdateMutationResolver h name args context =
     (case getModelClass h name of
        None \<Rightarrow> (Inr (VJson JNull), [])
      | Some cls \<Rightarrow>
          let whereConditions = JObj [''id'' \<mapsto> getProp args ''id''];
              input = getProp args ''input''
          in (case authGate (modelConfigOf h name) (getProp context ''req'') whereConditions OpUpdate of
                Inl e \<Rightarrow> (Inl e, [])
              | Inr (conditions, extra) \<Rightarrow>
                  (case callFindOne cls name (noOptions \<lparr> fo_where := Some (mergeWhere conditions extra) \<rparr>) of
                     (Inl e, calls) \<Rightarrow> (Inl e, calls)
                   | (Inr None, calls) \<Rightarrow> (Inr (VJson JNull), calls)
                   | (Inr (Some instance), calls) \<Rightarrow>
                       (case cls of
                          Descriptor d \<Rightarrow>
                            (Inl (TypeError ''instance.update is not a function''), calls)
                        | OrmClass m \<Rightarrow>
                            (case orm_update m instance input of
                               Inl e \<Rightarrow> (Inl e, calls @ [Update name instance input])
                             | Inr instance' \<Rightarrow>
                                 (Inr (VInstance instance'), calls @ [Update name instance input]))))))"

definition generateDeleteMutationResolver :: "GraphQLHelper \<Rightarrow> string \<Rightarrow> Args \<Rightarrow> Args \<Rightarrow> Outcome" where
  "generateDeleteMutationResolver h name args context =
     (case getModelClass h name of
        None \<Rightarrow> (Inr (VJson (JBool False)), [])
      | Some cls \<Rightarrow>
          let whereConditions = JObj [''id'' \<mapsto> getProp args ''id'']
          in (case authGate (modelConfigOf h name) (getProp context ''req'') whereConditions OpDelete of
                Inl e \<Rightarrow> (Inl e, [])
              | Inr (conditions, extra) \<Rightarrow>
                  (case callFindOne cls name (noOptions \<lparr> fo_where := Some (mergeWhere conditions extra) \<rparr>) of
                     (Inl e, calls) \<Rightarrow> (Inl e, calls)
                   | (Inr None, calls) \<Rightarrow> (Inr (VJson (JBool False)), calls)
                   | (Inr (Some instance), calls) \<Rightarrow>
                       (case cls of
                          Descriptor d \<Rightarrow>
                            (Inl (TypeError ''instance.destroy is not a function''), calls)
                        | OrmClass m \<Rightarrow>
                            (case orm_destroy m instance of
                               Inl e \<Rightarrow> (Inl e, calls @ [Destroy name instance])
                             | Inr u \<Rightarrow>
                                 (Inr (VJson (JBool True)), calls @ [Destroy name instance]))))))"

text \<open>
  The closure \<^verbatim>\<open>generateFieldResolvers\<close> stores for an association:
  \<^verbatim>\<open>return parent[assocName]\<close>, under the comment "This would need to be implemented
  based on how associations are loaded. For now, return the related data if it's already
  loaded".
\<close>

definition fieldResolver :: "GraphQLHelper \<Rightarrow> string \<Rightarrow> string \<Rightarrow> Args \<Rightarrow> Outcome" where
  "fieldResolver h name assocName parent = (Inr (VJson (getProp parent assocName)), [])"

text \<open>Invoking an entry of the resolver map; a custom resolver is opaque.\<close>

fun runResolver :: "GraphQLHelper \<Rightarrow> Resolver \<Rightarrow> Args \<Rightarrow> Args \<Rightarrow> Args \<Rightarrow> Outcome option" where
  "runResolver h (QueryResolver n) parent args context = Some (generateQueryResolver h n args context)"
| "runResolver h (ListQueryResolver n) parent args context =
     Some (generateListQueryResolver h n args context)"
| "runResolver h (CreateMutationResolver n) parent args context =
     Some (generateCreateMutationResolver h n args context)"
| "runResolver h (UpdateMutationResolver n) parent args context =
     Some (generateUpdateMutationResolver h n args context)"
| "runResolver h (DeleteMutationResolver n) parent args context =
     Some (generateDeleteMutationResolver h n args context)"
| "runResolver h (FieldResolver n a) parent args context = Some (fieldResolver h n a parent)"
| "runResolver h (CustomResolver k) parent args context = None"

section \<open>GraphQLSchemaGenerator (utils/schemaGenerator.ts)\<close>

text \<open>
  The second generator of the repository, over the same decorator metadata. Of it, the
  type of an attribute and of an association and the closures it installs for update,
  delete and association fields are modelled.
\<close>

definition sequelizeToGraphQLTypes :: "(string \<times> string) list" where
  "sequelizeToGraphQLTypes = [(''STRING'', ''String''), (''TEXT'', ''String''),
     (''INTEGER'', ''Int''), (''BIGINT'', ''Int''), (''FLOAT'', ''Float''),
     (''DOUBLE'', ''Float''), (''DECIMAL'', ''Float''), (''BOOLEAN'', ''Boolean''),
     (''DATE'', ''String''), (''DATEONLY'', ''String''), (''TIME'', ''String''),
     (''JSON'', ''JSON''), (''JSONB'', ''JSON''), (''UUID'', ''String''), (''ENUM'', ''String'')]"

text \<open>
  \<^verbatim>\<open>getGraphQLType\<close>. The non-null mark is added under
  \<^verbatim>\<open>!fieldConfig.nullable && !attribute.allowNull\<close>.
\<close>

definition getGraphQLType :: "Attribute \<Rightarrow> GQLFieldConfig \<Rightarrow> string" where
  "getGraphQLType attribute fieldConfig =
     (if truthyStr (fc_customType fieldConfig) then the (fc_customType fieldConfig)
      else
        let baseType =
              (case at_type attribute of
                 None \<Rightarrow> ''String''
               | Some t \<Rightarrow>
                   (case orStr (st_ctorName t) (st_key t) of
                      None \<Rightarrow> ''String''
                    | Some sequelizeType \<Rightarrow>
                        (case map_of sequelizeToGraphQLTypes sequelizeType of
                           Some g \<Rightarrow> g
                         | None \<Rightarrow> ''String'')));
            baseType1 = (if fc_list fieldConfig = Some True then ''['' @ baseType @ '']''
                         else baseType)
        in if fc_nullable fieldConfig \<noteq> Some True \<and> at_allowNull attribute \<noteq> Some True
           then baseType1 @ ''!'' else baseType1)"

definition getAssociationType :: "Association \<Rightarrow> string option" where
  "getAssociationType association =
     (case as_target association of
        None \<Rightarrow> None
      | Some targetModel \<Rightarrow>
          if targetModel = [] then None
          else if as_associationType association = ''HasOne''
                  \<or> as_associationType association = ''BelongsTo'' then Some targetModel
          else if as_associationType association = ''HasMany''
                  \<or> as_associationType association = ''BelongsToMany''
               then Some (''['' @ targetModel @ '']'')
          else None)"

text \<open>The model class a closure of this generator captures: its name and its ORM methods.\<close>

record ModelCtor =
  ctor_name :: string
  ctor_orm :: OrmModel

text \<open>\<^verbatim>\<open>config?.getTypeName() || modelName\<close>, with \<^verbatim>\<open>getTypeName\<close> of AbstractGraphQLModelConfig.\<close>

record AbstractGraphQLModelConfig =
  ac_modelName :: string
  ac_config :: GQLModelConfig

definition getTypeName :: "AbstractGraphQLModelConfig \<Rightarrow> string" where
  "getTypeName c =
     (if truthyStr (typeName (ac_config c)) then the (typeName (ac_config c)) else ac_modelName c)"

definition typeNameFor :: "ModelCtor \<Rightarrow> AbstractGraphQLModelConfig option \<Rightarrow> string" where
  "typeNameFor model config =
     (case config of
        None \<Rightarrow> ctor_name model
      | Some c \<Rightarrow> (if getTypeName c \<noteq> [] then getTypeName c else ctor_name model))"

text \<open>\<^verbatim>\<open>resolvers.Mutation[`update${typeName}`]\<close>\<close>

definition sgUpdateResolver ::
  "ModelCtor \<Rightarrow> AbstractGraphQLModelConfig option \<Rightarrow> Args \<Rightarrow> Outcome" where
  "sgUpdateResolver model config args =
     (let call = FindByPk (ctor_name model) (getProp args ''id'') None
      in case orm_findByPk (ctor_orm model) (getProp args ''id'') None of
           Inl e \<Rightarrow> (Inl e, [call])
         | Inr None \<Rightarrow> (Inl (Error (typeNameFor model config @ '' not found'')), [call])
         | Inr (Some instance) \<Rightarrow>
             (case orm_update (ctor_orm model) instance (getProp args ''input'') of
                Inl e \<Rightarrow> (Inl e, [call, Update (ctor_name model) instance (getProp args ''input'')])
              | Inr instance' \<Rightarrow>
                  (Inr (VInstance instance'),
                   [call, Update (ctor_name model) instance (getProp args ''input'')])))"

text \<open>\<^verbatim>\<open>resolvers.Mutation[`delete${typeName}`]\<close>\<close>

definition sgDeleteResolver ::
  "ModelCtor \<Rightarrow> AbstractGraphQLModelConfig option \<Rightarrow> Args \<Rightarrow> Outcome" where
  "sgDeleteResolver model config args =
     (let call = FindByPk (ctor_name model) (getProp args ''id'') None
      in case orm_findByPk (ctor_orm model) (getProp args ''id'') None of
           Inl e \<Rightarrow> (Inl e, [call])
         | Inr None \<Rightarrow> (Inl (Error (typeNameFor model config @ '' not found'')), [call])
         | Inr (Some instance) \<Rightarrow>
             (case orm_destroy (ctor_orm model) instance of
                Inl e \<Rightarrow> (Inl e, [call, Destroy (ctor_name model) instance])
              | Inr u \<Rightarrow> (Inr (VJson (JBool True)), [call, Destroy (ctor_name model) instance])))"

text \<open>
  The closure this generator stores for an association: the parent's own value when it is
  truthy, otherwise \<^verbatim>\<open>findByPk(parent.id, { include: [{ association }] })\<close> and the
  property of the instance found (undefined when none is found).
\<close>

definition sgFieldResolver :: "ModelCtor \<Rightarrow> string \<Rightarrow> Args \<Rightarrow> Outcome" where
  "sgFieldResolver model assocName parent =
     (if \<not> truthy (getProp parent assocName) then
        let opts = Some (noOptions \<lparr> fo_include := Some [assocName] \<rparr>);
            call = FindByPk (ctor_name model) (getProp parent ''id'') opts
        in case orm_findByPk (ctor_orm model) (getProp parent ''id'') opts of
             Inl e \<Rightarrow> (Inl e, [call])
           | Inr None \<Rightarrow> (Inr (VJson JUndefined), [call])
           | Inr (Some instance) \<Rightarrow>
               (Inr (VJson (getProp (ownProps (toJSON instance)) assocName)), [call])
      else (Inr (VJson (getProp parent assocName)), []))"

section \<open>Example models\<close>

text \<open>
  The model of the specification's scenarios, \<^verbatim>\<open>Post { id, title, authorId }\<close>, with an
  \<^verbatim>\<open>author\<close> association, under whatever \<^verbatim>\<open>@GQLModel\<close> configuration is given (\<open>None\<close>: the
  class carries no decorator).
\<close>

definition stringAttr :: "bool option \<Rightarrow> Attribute" where
  "stringAttr allowNull =
     \<lparr> at_type = Some \<lparr> st_key = Some ''STRING'', st_ctorName = Some ''STRING'' \<rparr>,
       at_allowNull = allowNull \<rparr>"

definition postAttributes :: "(string \<times> Attribute) list" where
  "postAttributes = [(''id'', stringAttr (Some False)), (''title'', stringAttr None),
     (''authorId'', stringAttr (Some False))]"

definition postClass :: "GQLModelConfig option \<Rightarrow> ModelClass" where
  "postClass cfg = \<lparr> mc_name = ''Post'', mc_gqlModel = cfg, mc_gqlFields = None,
     mc_rawAttributes = Some postAttributes, mc_attributes = None, mc_associations = None \<rparr>"

definition authorAssociation :: Association where
  "authorAssociation = \<lparr> as_target = Some ''User'', as_targetModel = None,
     as_associationType = ''BelongsTo'' \<rparr>"

definition postWithAuthor :: ModelClass where
  "postWithAuthor = (postClass (Some emptyModelConfig))
     \<lparr> mc_associations := Some [(''author'', authorAssociation)] \<rparr>"

text \<open>
  An ORM class over a table without rows: nothing is found, and \<^verbatim>\<open>create\<close> answers
  with an instance that carries the values it was given.
\<close>

definition emptyTable :: OrmModel where
  "emptyTable = \<lparr> orm_findOne = (\<lambda>opts. Inr None), orm_findAll = (\<lambda>opts. Inr []),
     orm_findByPk = (\<lambda>pk opts. Inr None), orm_create = (\<lambda>values. Inr (Instance values)),
     orm_update = (\<lambda>instance values. Inr instance), orm_destroy = (\<lambda>instance. Inr ()) \<rparr>"

definition postDb :: Sequelize where
  "postDb = \<lparr> sq_models = Some [''Post'' \<mapsto> emptyTable] \<rparr>"

definition titleInput :: jv where
  "titleInput = JObj [''title'' \<mapsto> JStr ''Hello'']"

text \<open>A helper with the decorated Post registered, over a database that knows Post.\<close>

definition postHelper :: GraphQLHelper where
  "postHelper = addModel (postClass (Some emptyModelConfig)) (newGraphQLHelper (Some postDb))"

text \<open>A helper handed a Post class that carries no decorator at all.\<close>

definition undecoratedHelper :: GraphQLHelper where
  "undecoratedHelper = addModel (postClass None) (newGraphQLHelper None)"

text \<open>Post under \<^verbatim>\<open>authRequired: true\<close> with no \<^verbatim>\<open>authHandler\<close>.\<close>

definition guardedConfig :: GQLModelConfig where
  "guardedConfig = emptyModelConfig \<lparr> authRequired := Some True \<rparr>"

definition guardedHelper :: GraphQLHelper where
  "guardedHelper = addModel (postClass (Some guardedConfig)) (newGraphQLHelper (Some postDb))"

text \<open>A \<^verbatim>\<open>sequelize\<close> whose \<^verbatim>\<open>models\<close> does not hold Post.\<close>

definition otherDb :: Sequelize where
  "otherDb = \<lparr> sq_models = Some Map.empty \<rparr>"

definition guardedStrayHelper :: GraphQLHelper where
  "guardedStrayHelper = addModel (postClass (Some guardedConfig)) (newGraphQLHelper (Some otherDb))"

text \<open>The hook of the specification's scenario: \<^verbatim>\<open>{success: true, where: {ownerId: "u1"}}\<close>.\<close>

definition ownerHook :: AuthHandler where
  "ownerHook req conditions operation =
     (AuthResult True (JObj [''ownerId'' \<mapsto> JStr ''u1'']), conditions)"

definition ownedConfig :: GQLModelConfig where
  "ownedConfig = emptyModelConfig \<lparr> authRequired := Some True, authHandler := Some ownerHook \<rparr>"

definition ownedHelper :: GraphQLHelper where
  "ownedHelper = addModel (postClass (Some ownedConfig)) (newGraphQLHelper (Some postDb))"


text \<open>
  The filter conditions a resolver passed to the ORM: the \<^verbatim>\<open>where\<close> of every
  \<^verbatim>\<open>findOne\<close> and \<^verbatim>\<open>findAll\<close> it called, in order.
\<close>

definition filtersPassed :: "OrmCall list \<Rightarrow> jv option list" where
  "filtersPassed calls =
     concat (map (\<lambda>c. case c of FindOne n opts \<Rightarrow> [fo_where opts]
                            | FindAll n opts \<Rightarrow> [fo_where opts]
                            | _ \<Rightarrow> []) calls)"


text \<open>Post as GraphQLSchemaGenerator captures it, over the table without rows.\<close>

definition postCtor :: ModelCtor where
  "postCtor = \<lparr> ctor_name = ''Post'', ctor_orm = emptyTable \<rparr>"

text \<open>The descriptor \<^verbatim>\<open>addModel\<close> keeps of Post.\<close>

definition postModel :: SequelizeModel where
  "postModel = \<lparr> sm_name = ''Post'', sm_attributes = postAttributes, sm_associations = [] \<rparr>"

text \<open>The scenario of the specification: \<^verbatim>\<open>"Post.title"\<close> is blacklisted.\<close>

definition blacklistHelper :: GraphQLHelper where
  "blacklistHelper = addToBlackList ''Post.title'' postHelper"

text \<open>The bare field name and the bare model name on the blacklist.\<close>

definition blacklistFieldHelper :: GraphQLHelper where
  "blacklistFieldHelper = addToBlackList ''title'' postHelper"

definition blacklistModelHelper :: GraphQLHelper where
  "blacklistModelHelper = addToBlackList ''Post'' postHelper"

text \<open>A second model, and a whitelist that names it alone.\<close>

definition userClass :: ModelClass where
  "userClass = \<lparr> mc_name = ''User'', mc_gqlModel = Some emptyModelConfig, mc_gqlFields = None,
     mc_rawAttributes = Some [(''id'', stringAttr (Some False))], mc_attributes = None,
     mc_associations = None \<rparr>"


text \<open>Post whose \<^verbatim>\<open>title\<close> carries \<^verbatim>\<open>@GQLField({nullable: false})\<close>.\<close>

definition strictTitlePost :: ModelClass where
  "strictTitlePost = (postClass (Some emptyModelConfig))
     \<lparr> mc_gqlFields := Some [(''title'', emptyFieldConfig \<lparr> fc_nullable := Some False \<rparr>)] \<rparr>"

definition strictTitleHelper :: GraphQLHelper where
  "strictTitleHelper = addModel strictTitlePost (newGraphQLHelper (Some postDb))"

definition titleField :: GraphQLFieldType where
  "titleField = \<lparr> gf_name = ''title'', gf_type = ''String'', isNullable = False, isList = False,
     isRelation = False, relationType = None, relatedModel = None \<rparr>"

text \<open>
  A hook that removes the caller's id from the conditions object it is handed
  (\<^verbatim>\<open>delete where.id\<close>) and returns \<^verbatim>\<open>{success: true, where: {ownerId: "u1"}}\<close>.
\<close>

definition strippingHook :: AuthHandler where
  "strippingHook req conditions operation =
     (AuthResult True (JObj [''ownerId'' \<mapsto> JStr ''u1'']),
      JObj ((ownProps conditions) (''id'' := None)))"

definition strippedConfig :: GQLModelConfig where
  "strippedConfig = emptyModelConfig \<lparr> authRequired := Some True, authHandler := Some strippingHook \<rparr>"

definition strippedHelper :: GraphQLHelper where
  "strippedHelper = addModel (postClass (Some strippedConfig)) (newGraphQLHelper (Some postDb))"

text \<open>A second model whose name is that of a root type, registered after Post.\<close>

definition shadowedHelper :: GraphQLHelper where
  "shadowedHelper = addModel (userClass \<lparr> mc_name := ''Mutation'' \<rparr>) postHelper"

section \<open>The create resolver\<close>

lemma create_calls:
  "snd (generateCreateMutationResolver h name args context) = []
   \<or> snd (generateCreateMutationResolver h name args context) = [Create name JNull]"
  by (auto simp: generateCreateMutationResolver_def callCreate_def Let_def
      split: option.splits sum.splits Handle.splits)

text \<open>
  C1 (the create resolver executes the ORM create with the caller-supplied input, so the
  created row carries the fields passed in). The code does otherwise: for the decorated
  Post model without authorization, \<^verbatim>\<open>createPost(input: {title: "Hello"})\<close> calls
  \<^verbatim>\<open>create(null)\<close>, and the instance handed back carries null, not the title.
\<close>

theorem C1_create_passes_null:
  "generateCreateMutationResolver postHelper ''Post'' [''input'' \<mapsto> titleInput] Map.empty
   = (Inr (VInstance (Instance JNull)), [Create ''Post'' JNull])"
  by (simp add: generateCreateMutationResolver_def getModelClass_def postHelper_def addModel_def
      newGraphQLHelper_def postClass_def postDb_def getGQLModelMetadata_def emptyModelConfig_def
      Let_def authGate_def modelConfigOf_def callCreate_def emptyTable_def)

section \<open>Models without configuration\<close>

lemma addModel_excluded:
  "exclude (getGQLModelMetadata model) = Some True \<Longrightarrow> addModel model h = h"
  by (simp add: addModel_def Let_def)

text \<open>
  C4 (a model handed to addModel that is excluded by the flag, or that has no model-level
  configuration at all, leaves no object type, input type or root operation in the
  schema). The excluded half is \<open>addModel_excluded\<close>. For a class without any decorator
  the code does otherwise: \<^verbatim>\<open>getGQLModelMetadata\<close> answers \<^verbatim>\<open>{}\<close>, the test
  \<^verbatim>\<open>!modelConfig\<close> is false, the model is registered, and the schema has its type, its
  input type and all eight root operations with the five resolvers.
\<close>

theorem C4_undecorated_model_in_schema:
  "mc_gqlModel (postClass None) = None
   \<and> map fst (models undecoratedHelper) = [''Post'']
   \<and> typeDefs (fst (getSchema undecoratedHelper)) =
       concat (map (\<lambda>l. l @ NL)
         [''scalar JSON'', '''',
          ''type Post {'', ''  id: String!'', ''  title: String'', ''  authorId: String!'', ''}'', '''',
          ''input PostInput {'', ''  id: String!'', ''  title: String'', ''  authorId: String!'',
          ''}'', '''', '''',
          ''            type Query {'',
          ''  post(id: String!): Post'',
          ''  postList(where: JSON, limit: Int, offset: Int, order: String): [Post]'', '''',
          ''            }'',
          ''            type Mutation {'',
          ''  createPost(input: PostInput!): Post'',
          ''  updatePost(id: String!, input: PostInput!): Post'',
          ''  deletePost(id: String!): Boolean'', '''',
          ''            }'',
          ''            type Subscription {'',
          ''  postCreated: Post'', ''  postUpdated: Post'', ''  postDeleted(id: String!): Post'', '''',
          ''            }'']) @ ''        ''
   \<and> resolvers (fst (getSchema undecoratedHelper)) =
       [(''Query'', [(''post'', QueryResolver ''Post''), (''postList'', ListQueryResolver ''Post'')]),
        (''Mutation'', [(''createPost'', CreateMutationResolver ''Post''),
                       (''updatePost'', UpdateMutationResolver ''Post''),
                       (''deletePost'', DeleteMutationResolver ''Post'')]),
        (''Subscription'', []), (''Post'', [])]"
  by code_simp

section \<open>Association fields\<close>

lemma fieldResolver_no_fetch: "snd (fieldResolver h name assocName parent) = []"
  by (simp add: fieldResolver_def)

lemma sgFieldResolver_loaded:
  "truthy (getProp parent assocName) \<Longrightarrow>
   sgFieldResolver model assocName parent = (Inr (VJson (getProp parent assocName)), [])"
  by (simp add: sgFieldResolver_def)

lemma sgFieldResolver_fetches:
  "\<not> truthy (getProp parent assocName) \<Longrightarrow>
   snd (sgFieldResolver model assocName parent) =
     [FindByPk (ctor_name model) (getProp parent ''id'')
        (Some (noOptions \<lparr> fo_include := Some [assocName] \<rparr>))]"
  by (simp add: sgFieldResolver_def Let_def split: sum.splits option.splits)

text \<open>
  C9 (an association field resolver returns the related data the parent carries, and
  otherwise re-fetches the owning record by primary key with the association included;
  it never returns undefined merely because the data was not eager-loaded). The closure
  of GraphQLSchemaGenerator does so (\<open>sgFieldResolver_loaded\<close>, \<open>sgFieldResolver_fetches\<close>).
  The closure of GraphQLHelper does otherwise: the resolver generated for the \<^verbatim>\<open>author\<close>
  association of Post, run on a parent \<^verbatim>\<open>{id: "7"}\<close> that does not carry the author,
  returns undefined and calls nothing on the ORM.
\<close>

theorem C9_helper_field_resolver_undefined:
  "generateFieldResolvers (addModel postWithAuthor (newGraphQLHelper (Some postDb)))
     \<lparr> sm_name = ''Post'', sm_attributes = postAttributes,
       sm_associations = [(''author'', authorAssociation)] \<rparr>
     = [(''author'', FieldResolver ''Post'' ''author'')]
   \<and> runResolver (addModel postWithAuthor (newGraphQLHelper (Some postDb)))
       (FieldResolver ''Post'' ''author'') [''id'' \<mapsto> JStr ''7''] Map.empty Map.empty
     = Some (Inr (VJson JUndefined), [])"
  by (simp add: generateFieldResolvers_def isFieldBlacklisted_def addModel_def Let_def
      newGraphQLHelper_def postWithAuthor_def postClass_def fieldResolver_def getProp_def)

section \<open>Authorization\<close>

lemma authGate_missing_hook:
  "Option.bind cfg authRequired = Some True \<Longrightarrow> Option.bind cfg authHandler = None \<Longrightarrow>
   authGate cfg req conditions operation = Inl (Error ''Access denied'')"
  by (simp add: authGate_def)

text \<open>
  C2, as amended. On a model whose metadata has \<^verbatim>\<open>authRequired: true\<close> and no
  \<^verbatim>\<open>authHandler\<close>, each of the five generated resolvers throws "Access denied" with
  no ORM operation invoked whenever the model's handle resolves; when
  \<^verbatim>\<open>getModelClass\<close> finds no handle, the resolver returns its empty result (null, the
  empty list, false), again with no ORM operation invoked.
\<close>

theorem C2_missing_hook_denied:
  assumes "Option.bind (modelConfigOf h name) authRequired = Some True"
      and "Option.bind (modelConfigOf h name) authHandler = None"
  shows "generateQueryResolver h name args context =
           (if getModelClass h name = None then (Inr (VJson JNull), [])
            else (Inl (Error ''Access denied''), []))
       \<and> generateListQueryResolver h name args context =
           (if getModelClass h name = None then (Inr (VList []), [])
            else (Inl (Error ''Access denied''), []))
       \<and> generateCreateMutationResolver h name args context =
           (if getModelClass h name = None then (Inr (VJson JNull), [])
            else (Inl (Error ''Access denied''), []))
       \<and> generateUpdateMutationResolver h name args context =
           (if getModelClass h name = None then (Inr (VJson JNull), [])
            else (Inl (Error ''Access denied''), []))
       \<and> generateDeleteMutationResolver h name args context =
           (if getModelClass h name = None then (Inr (VJson (JBool False)), [])
            else (Inl (Error ''Access denied''), []))"
  using assms
  by (auto simp: generateQueryResolver_def generateListQueryResolver_def
      generateCreateMutationResolver_def generateUpdateMutationResolver_def
      generateDeleteMutationResolver_def authGate_missing_hook Let_def)

lemma guarded_cfg:
  "modelConfigOf guardedHelper ''Post'' = Some guardedConfig"
  by (simp add: modelConfigOf_def guardedHelper_def addModel_def Let_def newGraphQLHelper_def
      postClass_def getGQLModelMetadata_def guardedConfig_def emptyModelConfig_def)

lemma guarded_class:
  "getModelClass guardedHelper ''Post'' = Some (OrmClass emptyTable)"
  by (simp add: getModelClass_def guardedHelper_def addModel_def Let_def newGraphQLHelper_def
      postClass_def getGQLModelMetadata_def guardedConfig_def emptyModelConfig_def postDb_def)

text \<open>The hypotheses of C2 hold for Post over a database that knows it; all five resolvers deny.\<close>

theorem C2_missing_hook_denied_witness:
  "Option.bind (modelConfigOf guardedHelper ''Post'') authRequired = Some True
   \<and> Option.bind (modelConfigOf guardedHelper ''Post'') authHandler = None
   \<and> generateQueryResolver guardedHelper ''Post'' [''id'' \<mapsto> JStr ''7''] Map.empty
       = (Inl (Error ''Access denied''), [])
   \<and> generateListQueryResolver guardedHelper ''Post'' Map.empty Map.empty
       = (Inl (Error ''Access denied''), [])
   \<and> generateCreateMutationResolver guardedHelper ''Post'' [''input'' \<mapsto> titleInput] Map.empty
       = (Inl (Error ''Access denied''), [])
   \<and> generateUpdateMutationResolver guardedHelper ''Post''
        [''id'' \<mapsto> JStr ''7'', ''input'' \<mapsto> titleInput] Map.empty
       = (Inl (Error ''Access denied''), [])
   \<and> generateDeleteMutationResolver guardedHelper ''Post'' [''id'' \<mapsto> JStr ''7''] Map.empty
       = (Inl (Error ''Access denied''), [])"
proof -
  have a: "Option.bind (modelConfigOf guardedHelper ''Post'') authRequired = Some True"
    by (simp add: guarded_cfg guardedConfig_def emptyModelConfig_def)
  have b: "Option.bind (modelConfigOf guardedHelper ''Post'') authHandler = None"
    by (simp add: guarded_cfg guardedConfig_def emptyModelConfig_def)
  show ?thesis
    using a b
      C2_missing_hook_denied [OF a b, of "[''id'' \<mapsto> JStr ''7'']" Map.empty]
      C2_missing_hook_denied [OF a b, of Map.empty Map.empty]
      C2_missing_hook_denied [OF a b, of "[''input'' \<mapsto> titleInput]" Map.empty]
      C2_missing_hook_denied [OF a b, of "[''id'' \<mapsto> JStr ''7'', ''input'' \<mapsto> titleInput]" Map.empty]
    by (simp add: guarded_class)
qed

text \<open>
  C2 as stated fails: the handle is resolved before the authorization block, and when
  \<^verbatim>\<open>sequelize.models\<close> does not hold the model the single-query resolver returns null
  instead of throwing.
\<close>

theorem C2_counterexample:
  "Option.bind (modelConfigOf guardedStrayHelper ''Post'') authRequired = Some True
   \<and> Option.bind (modelConfigOf guardedStrayHelper ''Post'') authHandler = None
   \<and> generateQueryResolver guardedStrayHelper ''Post'' [''id'' \<mapsto> JStr ''7''] Map.empty
       = (Inr (VJson JNull), [])"
  by (simp add: modelConfigOf_def guardedStrayHelper_def addModel_def Let_def newGraphQLHelper_def
      postClass_def getGQLModelMetadata_def guardedConfig_def emptyModelConfig_def otherDb_def
      generateQueryResolver_def getModelClass_def)

lemma authGate_where:
  "Option.bind cfg authRequired = Some True \<Longrightarrow> Option.bind cfg authHandler = Some hook \<Longrightarrow>
   hook req conditions operation = (AuthResult True (JObj w), left) \<Longrightarrow>
   authGate cfg req conditions operation = Inr (afterHook conditions left, Some (JObj w))"
  by (simp add: authGate_def)

lemma afterHook_same: "afterHook c c = c"
  by (cases c) (simp_all add: afterHook_def)

text \<open>
  C3, as amended. For the single-query, list-query, update and delete resolvers on a model
  with \<^verbatim>\<open>authRequired: true\<close> whose hook returns a structured result with
  \<^verbatim>\<open>success: true\<close> and a \<^verbatim>\<open>where\<close> object w: every filter the resolver passes to the ORM
  is the spread of the conditions object, as the hook leaves it, and w, and when the handle
  is a class of the ORM exactly one such filter is passed. The conditions object is the
  caller-derived one (\<^verbatim>\<open>{id}\<close> for the single query, update and delete, the \<^verbatim>\<open>where\<close>
  argument for the list query), handed to the hook itself; a hook that does not write to
  it leaves the caller-derived conditions. In the spread every key of w carries w's value,
  every other key the value of the conditions object.
\<close>

theorem C3_hook_where_merged:
  assumes "Option.bind (modelConfigOf h name) authRequired = Some True"
      and "Option.bind (modelConfigOf h name) authHandler = Some hook"
  shows "(hook (getProp context ''req'') (JObj [''id'' \<mapsto> getProp args ''id'']) OpQuery
            = (AuthResult True (JObj w), left) \<longrightarrow>
          set (filtersPassed (snd (generateQueryResolver h name args context)))
            \<subseteq> {Some (spread (afterHook (JObj [''id'' \<mapsto> getProp args ''id'']) left) (JObj w))}
          \<and> ((\<exists>m. getModelClass h name = Some (OrmClass m)) \<longrightarrow>
               filtersPassed (snd (generateQueryResolver h name args context))
                 = [Some (spread (afterHook (JObj [''id'' \<mapsto> getProp args ''id'']) left) (JObj w))]))
       \<and> (hook (getProp context ''req'') (getProp args ''where'') OpQuery
            = (AuthResult True (JObj w), left) \<longrightarrow>
          set (filtersPassed (snd (generateListQueryResolver h name args context)))
            \<subseteq> {Some (spread (afterHook (getProp args ''where'') left) (JObj w))}
          \<and> ((\<exists>m. getModelClass h name = Some (OrmClass m)) \<longrightarrow>
               filtersPassed (snd (generateListQueryResolver h name args context))
                 = [Some (spread (afterHook (getProp args ''where'') left) (JObj w))]))
       \<and> (hook (getProp context ''req'') (JObj [''id'' \<mapsto> getProp args ''id'']) OpUpdate
            = (AuthResult True (JObj w), left) \<longrightarrow>
          set (filtersPassed (snd (generateUpdateMutationResolver h name args context)))
            \<subseteq> {Some (spread (afterHook (JObj [''id'' \<mapsto> getProp args ''id'']) left) (JObj w))}
          \<and> ((\<exists>m. getModelClass h name = Some (OrmClass m)) \<longrightarrow>
               filtersPassed (snd (generateUpdateMutationResolver h name args context))
                 = [Some (spread (afterHook (JObj [''id'' \<mapsto> getProp args ''id'']) left) (JObj w))]))
       \<and> (hook (getProp context ''req'') (JObj [''id'' \<mapsto> getProp args ''id'']) OpDelete
            = (AuthResult True (JObj w), left) \<longrightarrow>
          set (filtersPassed (snd (generateDeleteMutationResolver h name args context)))
            \<subseteq> {Some (spread (afterHook (JObj [''id'' \<mapsto> getProp args ''id'']) left) (JObj w))}
          \<and> ((\<exists>m. getModelClass h name = Some (OrmClass m)) \<longrightarrow>
               filtersPassed (snd (generateDeleteMutationResolver h name args context))
                 = [Some (spread (afterHook (JObj [''id'' \<mapsto> getProp args ''id'']) left) (JObj w))]))
       \<and> (\<forall>c. afterHook c c = c)
       \<and> (\<forall>a k. ownProps (spread a (JObj w)) k
                   = (case w k of Some v \<Rightarrow> Some v | None \<Rightarrow> ownProps a k))"
proof (intro conjI impI allI)
  fix a k
  show "ownProps (spread a (JObj w)) k = (case w k of Some v \<Rightarrow> Some v | None \<Rightarrow> ownProps a k)"
    by (simp add: spread_def map_add_def)
next
  fix c
  show "afterHook c c = c"
    by (rule afterHook_same)
qed (use assms in \<open>auto simp: generateQueryResolver_def generateListQueryResolver_def
      generateUpdateMutationResolver_def generateDeleteMutationResolver_def
      authGate_where mergeWhere_def callFindOne_def callFindAll_def filtersPassed_def Let_def
      split: option.splits sum.splits Handle.splits\<close>)

lemma owned_cfg: "modelConfigOf ownedHelper ''Post'' = Some ownedConfig"
  by (simp add: modelConfigOf_def ownedHelper_def addModel_def Let_def newGraphQLHelper_def
      postClass_def getGQLModelMetadata_def ownedConfig_def emptyModelConfig_def)

lemma owned_class: "getModelClass ownedHelper ''Post'' = Some (OrmClass emptyTable)"
  by (simp add: getModelClass_def ownedHelper_def addModel_def Let_def newGraphQLHelper_def
      postClass_def getGQLModelMetadata_def ownedConfig_def emptyModelConfig_def postDb_def)

text \<open>
  The scenario of the specification, with a hook that leaves the conditions object alone:
  the caller asks for id 7 (single query, update, delete), the hook adds the owner; and on
  a collision (the caller asks the list for owner u2) the hook's owner u1 stands.
\<close>

theorem C3_hook_where_merged_witness:
  "Option.bind (modelConfigOf ownedHelper ''Post'') authRequired = Some True
   \<and> Option.bind (modelConfigOf ownedHelper ''Post'') authHandler = Some ownerHook
   \<and> ownerHook JUndefined (JObj [''id'' \<mapsto> JStr ''7'']) OpQuery
       = (AuthResult True (JObj [''ownerId'' \<mapsto> JStr ''u1'']), JObj [''id'' \<mapsto> JStr ''7''])
   \<and> ownerHook JUndefined (JObj [''id'' \<mapsto> JStr ''7'']) OpUpdate
       = (AuthResult True (JObj [''ownerId'' \<mapsto> JStr ''u1'']), JObj [''id'' \<mapsto> JStr ''7''])
   \<and> ownerHook JUndefined (JObj [''id'' \<mapsto> JStr ''7'']) OpDelete
       = (AuthResult True (JObj [''ownerId'' \<mapsto> JStr ''u1'']), JObj [''id'' \<mapsto> JStr ''7''])
   \<and> getModelClass ownedHelper ''Post'' = Some (OrmClass emptyTable)
   \<and> filtersPassed (snd (generateQueryResolver ownedHelper ''Post'' [''id'' \<mapsto> JStr ''7''] Map.empty))
       = [Some (JObj [''id'' \<mapsto> JStr ''7'', ''ownerId'' \<mapsto> JStr ''u1''])]
   \<and> filtersPassed (snd (generateListQueryResolver ownedHelper ''Post''
         [''where'' \<mapsto> JObj [''ownerId'' \<mapsto> JStr ''u2'', ''title'' \<mapsto> JStr ''Hello'']] Map.empty))
       = [Some (JObj [''title'' \<mapsto> JStr ''Hello'', ''ownerId'' \<mapsto> JStr ''u1''])]
   \<and> filtersPassed (snd (generateUpdateMutationResolver ownedHelper ''Post''
         [''id'' \<mapsto> JStr ''7'', ''input'' \<mapsto> titleInput] Map.empty))
       = [Some (JObj [''id'' \<mapsto> JStr ''7'', ''ownerId'' \<mapsto> JStr ''u1''])]
   \<and> filtersPassed (snd (generateDeleteMutationResolver ownedHelper ''Post''
         [''id'' \<mapsto> JStr ''7''] Map.empty))
       = [Some (JObj [''id'' \<mapsto> JStr ''7'', ''ownerId'' \<mapsto> JStr ''u1''])]"
proof -
  have a: "Option.bind (modelConfigOf ownedHelper ''Post'') authRequired = Some True"
    by (simp add: owned_cfg ownedConfig_def emptyModelConfig_def)
  have b: "Option.bind (modelConfigOf ownedHelper ''Post'') authHandler = Some ownerHook"
    by (simp add: owned_cfg ownedConfig_def emptyModelConfig_def)
  have c: "[''ownerId'' \<mapsto> JStr ''u2'', ''title'' \<mapsto> JStr ''Hello'', ''ownerId'' \<mapsto> JStr ''u1'']
           = [''title'' \<mapsto> JStr ''Hello'', ''ownerId'' \<mapsto> JStr ''u1'']"
    by (rule ext) simp
  show ?thesis
    using a b
      C3_hook_where_merged [OF a b, of Map.empty "[''id'' \<mapsto> JStr ''7'']"
        "[''ownerId'' \<mapsto> JStr ''u1'']" "JObj [''id'' \<mapsto> JStr ''7'']"]
      C3_hook_where_merged [OF a b, of Map.empty
        "[''where'' \<mapsto> JObj [''ownerId'' \<mapsto> JStr ''u2'', ''title'' \<mapsto> JStr ''Hello'']]"
        "[''ownerId'' \<mapsto> JStr ''u1'']"
        "JObj [''ownerId'' \<mapsto> JStr ''u2'', ''title'' \<mapsto> JStr ''Hello'']"]
      C3_hook_where_merged [OF a b, of Map.empty
        "[''id'' \<mapsto> JStr ''7'', ''input'' \<mapsto> titleInput]"
        "[''ownerId'' \<mapsto> JStr ''u1'']" "JObj [''id'' \<mapsto> JStr ''7'']"]
    by (simp add: owned_class ownerHook_def getProp_def spread_def afterHook_def c)
qed

lemma stripped_cfg: "modelConfigOf strippedHelper ''Post'' = Some strippedConfig"
  by (simp add: modelConfigOf_def strippedHelper_def addModel_def Let_def newGraphQLHelper_def
      postClass_def getGQLModelMetadata_def strippedConfig_def emptyModelConfig_def)

lemma stripped_class: "getModelClass strippedHelper ''Post'' = Some (OrmClass emptyTable)"
  by (simp add: getModelClass_def strippedHelper_def addModel_def Let_def newGraphQLHelper_def
      postClass_def getGQLModelMetadata_def strippedConfig_def emptyModelConfig_def postDb_def)

text \<open>
  C3 as stated fails. The hook is handed the very object \<^verbatim>\<open>{id}\<close> that is spread
  afterwards: a hook that does \<^verbatim>\<open>delete where.id\<close> and returns
  \<^verbatim>\<open>{success: true, where: {ownerId: "u1"}}\<close> makes the single query call
  \<^verbatim>\<open>findOne({where: {ownerId: "u1"}})\<close>, while the merge of the caller-derived conditions
  with the hook's where has id 7. And the create resolver, under the hook of the
  specification's scenario, passes neither the input nor the hook's where.
\<close>

theorem C3_counterexample:
  "Option.bind (modelConfigOf strippedHelper ''Post'') authRequired = Some True
   \<and> Option.bind (modelConfigOf strippedHelper ''Post'') authHandler = Some strippingHook
   \<and> fst (strippingHook JUndefined (JObj [''id'' \<mapsto> JStr ''7'']) OpQuery)
       = AuthResult True (JObj [''ownerId'' \<mapsto> JStr ''u1''])
   \<and> snd (generateQueryResolver strippedHelper ''Post'' [''id'' \<mapsto> JStr ''7''] Map.empty)
       = [FindOne ''Post'' (noOptions \<lparr> fo_where := Some (JObj [''ownerId'' \<mapsto> JStr ''u1'']) \<rparr>)]
   \<and> getProp [''ownerId'' \<mapsto> JStr ''u1''] ''id'' = JUndefined
   \<and> getProp (ownProps (spread (JObj [''id'' \<mapsto> JStr ''7'']) (JObj [''ownerId'' \<mapsto> JStr ''u1''])))
        ''id'' = JStr ''7''
   \<and> snd (generateCreateMutationResolver ownedHelper ''Post'' [''input'' \<mapsto> titleInput] Map.empty)
       = [Create ''Post'' JNull]"
proof -
  have e: "[''id'' \<mapsto> JStr ''7''](''id'' := None) = (Map.empty :: string \<rightharpoonup> jv)"
    by (rule ext) simp
  show ?thesis
    by (simp add: stripped_cfg stripped_class strippedConfig_def emptyModelConfig_def
        strippingHook_def generateQueryResolver_def authGate_def afterHook_def mergeWhere_def
        spread_def callFindOne_def emptyTable_def getProp_def Let_def e
        generateCreateMutationResolver_def owned_cfg owned_class ownedConfig_def ownerHook_def
        callCreate_def)
qed

section \<open>Rows that are not there, models that are not known\<close>

lemma post_class: "getModelClass postHelper ''Post'' = Some (OrmClass emptyTable)"
  by (simp add: getModelClass_def postHelper_def addModel_def Let_def newGraphQLHelper_def
      postClass_def getGQLModelMetadata_def emptyModelConfig_def postDb_def)

lemma post_cfg: "modelConfigOf postHelper ''Post'' = Some emptyModelConfig"
  by (simp add: modelConfigOf_def postHelper_def addModel_def Let_def newGraphQLHelper_def
      postClass_def getGQLModelMetadata_def emptyModelConfig_def)

lemma stray_class: "getModelClass guardedStrayHelper ''Post'' = None"
  by (simp add: getModelClass_def guardedStrayHelper_def addModel_def Let_def newGraphQLHelper_def
      postClass_def getGQLModelMetadata_def guardedConfig_def emptyModelConfig_def otherDb_def)

lemma authGate_open:
  "Option.bind cfg authRequired \<noteq> Some True \<Longrightarrow> authGate cfg req c operation = Inr (c, None)"
  by (simp add: authGate_def)

text \<open>
  C5, as amended. When no row matches the id, the update and delete closures of
  GraphQLSchemaGenerator throw "<TypeName> not found", while the update and delete
  resolvers of GraphQLHelper, once authorization has passed and \<^verbatim>\<open>findOne\<close> on the
  resulting conditions has found nothing, return null and false. When
  GraphQLHelper finds no handle for the model, its five resolvers return null, the empty
  list, null, null and false without calling the ORM.
\<close>

theorem C5_not_found_and_unknown_model:
  "(orm_findByPk (ctor_orm model) (getProp args ''id'') None = Inr None \<longrightarrow>
      sgUpdateResolver model config args
        = (Inl (Error (typeNameFor model config @ '' not found'')),
           [FindByPk (ctor_name model) (getProp args ''id'') None])
      \<and> sgDeleteResolver model config args
        = (Inl (Error (typeNameFor model config @ '' not found'')),
           [FindByPk (ctor_name model) (getProp args ''id'') None]))
   \<and> (getModelClass h name = Some (OrmClass m)
        \<and> authGate (modelConfigOf h name) (getProp context ''req'')
             (JObj [''id'' \<mapsto> getProp args ''id'']) OpUpdate = Inr (conditions, extra)
        \<and> orm_findOne m (noOptions \<lparr> fo_where := Some (mergeWhere conditions extra) \<rparr>)
            = Inr None \<longrightarrow>
      fst (generateUpdateMutationResolver h name args context) = Inr (VJson JNull))
   \<and> (getModelClass h name = Some (OrmClass m)
        \<and> authGate (modelConfigOf h name) (getProp context ''req'')
             (JObj [''id'' \<mapsto> getProp args ''id'']) OpDelete = Inr (conditions, extra)
        \<and> orm_findOne m (noOptions \<lparr> fo_where := Some (mergeWhere conditions extra) \<rparr>)
            = Inr None \<longrightarrow>
      fst (generateDeleteMutationResolver h name args context) = Inr (VJson (JBool False)))
   \<and> (getModelClass h name = None \<longrightarrow>
        generateQueryResolver h name args context = (Inr (VJson JNull), [])
        \<and> generateListQueryResolver h name args context = (Inr (VList []), [])
        \<and> generateCreateMutationResolver h name args context = (Inr (VJson JNull), [])
        \<and> generateUpdateMutationResolver h name args context = (Inr (VJson JNull), [])
        \<and> generateDeleteMutationResolver h name args context = (Inr (VJson (JBool False)), []))"
  by (simp add: sgUpdateResolver_def sgDeleteResolver_def Let_def
      generateQueryResolver_def generateListQueryResolver_def generateCreateMutationResolver_def
      generateUpdateMutationResolver_def generateDeleteMutationResolver_def callFindOne_def)

text \<open>Post over the table without rows, in both generators, and Post unknown to the database.\<close>

theorem C5_not_found_and_unknown_model_witness:
  "orm_findByPk (ctor_orm postCtor) (getProp [''id'' \<mapsto> JStr ''7''] ''id'') None = Inr None
   \<and> sgDeleteResolver postCtor None [''id'' \<mapsto> JStr ''7'']
       = (Inl (Error ''Post not found''), [FindByPk ''Post'' (JStr ''7'') None])
   \<and> sgUpdateResolver postCtor None [''id'' \<mapsto> JStr ''7'']
       = (Inl (Error ''Post not found''), [FindByPk ''Post'' (JStr ''7'') None])
   \<and> getModelClass postHelper ''Post'' = Some (OrmClass emptyTable)
   \<and> fst (generateUpdateMutationResolver postHelper ''Post'' [''id'' \<mapsto> JStr ''7''] Map.empty)
       = Inr (VJson JNull)
   \<and> fst (generateDeleteMutationResolver postHelper ''Post'' [''id'' \<mapsto> JStr ''7''] Map.empty)
       = Inr (VJson (JBool False))
   \<and> getModelClass guardedStrayHelper ''Post'' = None
   \<and> generateDeleteMutationResolver guardedStrayHelper ''Post'' [''id'' \<mapsto> JStr ''7''] Map.empty
       = (Inr (VJson (JBool False)), [])
   \<and> generateListQueryResolver guardedStrayHelper ''Post'' [''id'' \<mapsto> JStr ''7''] Map.empty
       = (Inr (VList []), [])"
  using C5_not_found_and_unknown_model [of postCtor "[''id'' \<mapsto> JStr ''7'']" None
          postHelper "''Post''" emptyTable Map.empty "JObj [''id'' \<mapsto> JStr ''7'']" None]
        C5_not_found_and_unknown_model [of postCtor "[''id'' \<mapsto> JStr ''7'']" None
          guardedStrayHelper "''Post''" emptyTable Map.empty "JObj [''id'' \<mapsto> JStr ''7'']" None]
  by (simp add: post_class post_cfg stray_class authGate_open emptyModelConfig_def
      postCtor_def emptyTable_def typeNameFor_def getProp_def)

text \<open>
  C5 as stated fails on GraphQLHelper: with no row of id 7, \<^verbatim>\<open>updatePost\<close> returns null
  and \<^verbatim>\<open>deletePost\<close> returns false, after the one \<^verbatim>\<open>findOne\<close>; neither throws.
\<close>

theorem C5_counterexample:
  "orm_findOne emptyTable (noOptions \<lparr> fo_where := Some (JObj [''id'' \<mapsto> JStr ''7'']) \<rparr>) = Inr None
   \<and> generateUpdateMutationResolver postHelper ''Post'' [''id'' \<mapsto> JStr ''7''] Map.empty
     = (Inr (VJson JNull), [FindOne ''Post'' (noOptions \<lparr> fo_where := Some (JObj [''id'' \<mapsto> JStr ''7'']) \<rparr>)])
   \<and> generateDeleteMutationResolver postHelper ''Post'' [''id'' \<mapsto> JStr ''7''] Map.empty
     = (Inr (VJson (JBool False)),
        [FindOne ''Post'' (noOptions \<lparr> fo_where := Some (JObj [''id'' \<mapsto> JStr ''7'']) \<rparr>)])"
  by (simp add: generateUpdateMutationResolver_def generateDeleteMutationResolver_def post_class
      post_cfg authGate_open emptyModelConfig_def callFindOne_def emptyTable_def mergeWhere_def
      getProp_def Let_def)

section \<open>Whitelist\<close>

text \<open>Schema generation reads the registry of models only through \<open>includedModels\<close>.\<close>

lemma models_update_readers [simp]:
  "modelConfigOf (h \<lparr> models := ms \<rparr>) = modelConfigOf h"
  "fieldConfigsOf (h \<lparr> models := ms \<rparr>) = fieldConfigsOf h"
  "isFieldBlacklisted (h \<lparr> models := ms \<rparr>) = isFieldBlacklisted h"
  "skippedByWhiteList (h \<lparr> models := ms \<rparr>) = skippedByWhiteList h"
  by (simp_all add: fun_eq_iff modelConfigOf_def fieldConfigsOf_def isFieldBlacklisted_def
      skippedByWhiteList_def)

lemma models_update_extractOne [simp]:
  "extractOne (h \<lparr> models := ms \<rparr>) n fcs conv = extractOne h n fcs conv"
  by (rule ext) (simp add: extractOne_def)

lemma models_update_fields [simp]:
  "extractModelFields (h \<lparr> models := ms \<rparr>) = extractModelFields h"
  by (simp add: fun_eq_iff extractModelFields_def)

lemma models_update_types [simp]:
  "generateModelType (h \<lparr> models := ms \<rparr>) = generateModelType h"
  "generateModelInputType (h \<lparr> models := ms \<rparr>) = generateModelInputType h"
  by (simp_all add: fun_eq_iff generateModelType_def generateModelInputType_def typeFields_def
      inputFields_def)

lemma models_update_fieldlines [simp]:
  "modelQueryFields (h \<lparr> models := ms \<rparr>) = modelQueryFields h"
  "modelMutationFields (h \<lparr> models := ms \<rparr>) = modelMutationFields h"
  "modelSubscriptionFields (h \<lparr> models := ms \<rparr>) = modelSubscriptionFields h"
  by (simp_all add: fun_eq_iff modelQueryFields_def modelMutationFields_def
      modelSubscriptionFields_def)

lemma models_update_modelResolvers [simp]:
  "modelResolvers (h \<lparr> models := ms \<rparr>) = modelResolvers h"
  by (simp add: fun_eq_iff modelResolvers_def generateFieldResolvers_def)





section \<open>Blacklist\<close>

lemma extractOne_blacklisted:
  "isFieldBlacklisted h modelName f \<Longrightarrow> extractOne h modelName fcs convert (f, d) = None"
  by (simp add: extractOne_def)

lemma map_filter_without:
  assumes "\<And>d. g (f, d) = None"
  shows "List.map_filter g (filter (\<lambda>(n, a). n \<noteq> f) xs) = List.map_filter g xs"
  using assms by (induction xs) (auto split: option.splits)

lemma extractModelFields_withoutField:
  assumes "isFieldBlacklisted h (sm_name model) f"
  shows "extractModelFields h (withoutField f model) = extractModelFields h model"
  using assms
  by (simp add: extractModelFields_def withoutField_def Let_def map_filter_without
      extractOne_blacklisted)

lemma generateModelType_withoutField:
  assumes "isFieldBlacklisted h (sm_name model) f"
  shows "generateModelType h (withoutField f model) = generateModelType h model"
    and "generateModelInputType h (withoutField f model) = generateModelInputType h model"
  using extractModelFields_withoutField [OF assms]
  by (simp_all add: generateModelType_def generateModelInputType_def typeFields_def
      inputFields_def) (simp_all add: withoutField_def)

lemma foldl_without:
  assumes "\<And>acc d. step acc (f, d) = acc"
  shows "foldl step acc (filter (\<lambda>(n, a). n \<noteq> f) xs) = foldl step acc xs"
  using assms by (induction xs arbitrary: acc) auto

lemma generateFieldResolvers_withoutField:
  assumes "isFieldBlacklisted h (sm_name model) f"
  shows "generateFieldResolvers h (withoutField f model) = generateFieldResolvers h model"
  using assms by (simp add: generateFieldResolvers_def withoutField_def foldl_without cong: if_cong)

lemma included_map:
  "includedModels (h \<lparr> models := map (\<lambda>(n, m). (n, g m)) (models h) \<rparr>)
   = map (\<lambda>(n, m). (n, g m)) (includedModels h)"
  by (simp add: includedModels_def filter_map o_def case_prod_unfold)

lemma included_map_unfolded:
  "includedModels (h \<lparr> models := map (\<lambda>p. (fst p, g (snd p))) (models h) \<rparr>)
   = map (\<lambda>p. (fst p, g (snd p))) (includedModels h)"
  using included_map [where h = h and g = g] by (simp add: case_prod_unfold)

lemma schema_of_mapped_models:
  assumes t: "\<And>m. generateModelType h (g m) = generateModelType h m"
      and i: "\<And>m. generateModelInputType h (g m) = generateModelInputType h m"
      and r: "\<And>rs n m. modelResolvers h rs (n, g m) = modelResolvers h rs (n, m)"
  shows "fst (getSchema (h \<lparr> models := map (\<lambda>(n, m). (n, g m)) (models h) \<rparr>)) = fst (getSchema h)"
proof -
  let ?h = "h \<lparr> models := map (\<lambda>(n, m). (n, g m)) (models h) \<rparr>"
  have f: "foldl (modelResolvers h) rs (map (\<lambda>(n, m). (n, g m)) xs) = foldl (modelResolvers h) rs xs"
    for rs xs
    by (induction xs arbitrary: rs) (auto simp: r)
  have "generateTypeDefs ?h = generateTypeDefs h"
    by (simp add: generateTypeDefs_def generateRootTypes_def queryFields_def mutationFields_def
        subscriptionFields_def included_map_unfolded o_def case_prod_unfold t i)
  moreover have "generateResolvers ?h = generateResolvers h"
    by (simp add: generateResolvers_def modelsResolvers_def included_map f)
  ultimately show ?thesis
    by (simp add: getSchema_def)
qed

lemma dropField_schema:
  assumes "isFieldBlacklisted h modelName f"
  shows "fst (getSchema (dropField modelName f h)) = fst (getSchema h)"
proof -
  let ?g = "\<lambda>m. if sm_name m = modelName then withoutField f m else m"
  have n: "sm_name (?g m) = sm_name m" for m
    by (simp add: withoutField_def)
  have t: "generateModelType h (?g m) = generateModelType h m"
          "generateModelInputType h (?g m) = generateModelInputType h m" for m
    using assms generateModelType_withoutField [of h m f] by auto
  have fr: "generateFieldResolvers h (?g m) = generateFieldResolvers h m" for m
    using assms generateFieldResolvers_withoutField [of h m f] by auto
  have r: "modelResolvers h rs (n, ?g m) = modelResolvers h rs (n, m)" for rs n m
    unfolding modelResolvers_def by (simp only: prod.case n fr)
  show ?thesis
    unfolding dropField_def by (rule schema_of_mapped_models) (rule t r)+
qed

text \<open>
  C6. For a field name that matches the blacklist at any of the three granularities (the
  exact \<^verbatim>\<open>Model.field\<close>, the bare field name, the bare model name): the object type that
  \<^verbatim>\<open>generateModelType\<close> prints and the input type that \<^verbatim>\<open>generateModelInputType\<close> prints
  are, character for character, those of the model without any attribute or association
  of that name; the name is the name of no field printed into either; and the type
  definitions of \<^verbatim>\<open>getSchema\<close> are those of the registry in which the model has no such
  attribute or association.
\<close>

theorem C6_blacklisted_field_absent:
  assumes "sm_name model @ ''.'' @ f \<in> set (blackList h) \<or> f \<in> set (blackList h)
           \<or> sm_name model \<in> set (blackList h)"
  shows "generateModelType h model = generateModelType h (withoutField f model)
       \<and> generateModelInputType h model = generateModelInputType h (withoutField f model)
       \<and> f \<notin> fst ` set (sm_attributes (withoutField f model))
       \<and> f \<notin> fst ` set (sm_associations (withoutField f model))
       \<and> generateModelType h model
           = typeHeader (modelConfigOf h (sm_name model))
             @ ''type '' @ sm_name model @ '' {'' @ NL
             @ concat (map (fieldText (fieldConfigsOf h (sm_name model))) (typeFields h model))
             @ ''}'' @ NL
       \<and> generateModelInputType h model
           = ''input '' @ sm_name model @ ''Input {'' @ NL
             @ concat (map (fieldText (fieldConfigsOf h (sm_name model))) (inputFields h model))
             @ ''}'' @ NL
       \<and> f \<notin> gf_name ` set (typeFields h model)
       \<and> f \<notin> gf_name ` set (inputFields h model)
       \<and> typeDefs (fst (getSchema h)) = typeDefs (fst (getSchema (dropField (sm_name model) f h)))"
proof -
  have b: "isFieldBlacklisted h (sm_name model) f"
    using assms by (simp add: isFieldBlacklisted_def)
  have 1: "generateModelType h model = generateModelType h (withoutField f model)"
          "generateModelInputType h model = generateModelInputType h (withoutField f model)"
    using generateModelType_withoutField [OF b] by simp_all
  have 2: "f \<notin> fst ` set (sm_attributes (withoutField f model))"
          "f \<notin> fst ` set (sm_associations (withoutField f model))"
    by (auto simp: withoutField_def)
  have 3: "generateModelType h model
           = typeHeader (modelConfigOf h (sm_name model))
             @ ''type '' @ sm_name model @ '' {'' @ NL
             @ concat (map (fieldText (fieldConfigsOf h (sm_name model))) (typeFields h model))
             @ ''}'' @ NL"
          "generateModelInputType h model
           = ''input '' @ sm_name model @ ''Input {'' @ NL
             @ concat (map (fieldText (fieldConfigsOf h (sm_name model))) (inputFields h model))
             @ ''}'' @ NL"
    by (simp_all add: generateModelType_def generateModelInputType_def)
  have 4: "f \<notin> gf_name ` set (typeFields h model)" "f \<notin> gf_name ` set (inputFields h model)"
    using b by (auto simp: typeFields_def inputFields_def)
  have 5: "typeDefs (fst (getSchema h)) = typeDefs (fst (getSchema (dropField (sm_name model) f h)))"
    using dropField_schema [OF b] by simp
  show ?thesis
    using 1 2 3 4 5 by blast
qed

text \<open>
  The three granularities on Post: with \<^verbatim>\<open>"Post.title"\<close> or with \<^verbatim>\<open>"title"\<close> blacklisted,
  Post and PostInput keep id and authorId and lose title, and the type definitions of the
  schema are those of a Post that has no title; with \<^verbatim>\<open>"Post"\<close> blacklisted after the model
  was registered, both print without any field.
\<close>

theorem C6_blacklisted_field_absent_witness:
  "sm_name postModel @ ''.'' @ ''title'' \<in> set (blackList blacklistHelper)
   \<and> ''title'' \<in> set (blackList blacklistFieldHelper)
   \<and> sm_name postModel \<in> set (blackList blacklistModelHelper)
   \<and> map snd (models blacklistHelper) = [postModel]
   \<and> map snd (models blacklistFieldHelper) = [postModel]
   \<and> map snd (models blacklistModelHelper) = [postModel]
   \<and> map fst (sm_attributes postModel) = [''id'', ''title'', ''authorId'']
   \<and> generateModelType blacklistHelper postModel
       = concat (map (\<lambda>l. l @ NL) [''type Post {'', ''  id: String!'', ''  authorId: String!'', ''}''])
   \<and> generateModelInputType blacklistHelper postModel
       = concat (map (\<lambda>l. l @ NL) [''input PostInput {'', ''  id: String!'', ''  authorId: String!'', ''}''])
   \<and> generateModelType blacklistHelper (withoutField ''title'' postModel)
       = concat (map (\<lambda>l. l @ NL) [''type Post {'', ''  id: String!'', ''  authorId: String!'', ''}''])
   \<and> generateModelType blacklistFieldHelper postModel
       = concat (map (\<lambda>l. l @ NL) [''type Post {'', ''  id: String!'', ''  authorId: String!'', ''}''])
   \<and> generateModelInputType blacklistFieldHelper postModel
       = concat (map (\<lambda>l. l @ NL) [''input PostInput {'', ''  id: String!'', ''  authorId: String!'', ''}''])
   \<and> generateModelType blacklistModelHelper postModel
       = concat (map (\<lambda>l. l @ NL) [''type Post {'', ''}''])
   \<and> generateModelInputType blacklistModelHelper postModel
       = concat (map (\<lambda>l. l @ NL) [''input PostInput {'', ''}''])
   \<and> generateModelType blacklistModelHelper (withoutField ''id'' postModel)
       = concat (map (\<lambda>l. l @ NL) [''type Post {'', ''}''])
   \<and> typeDefs (fst (getSchema blacklistHelper)) =
       concat (map (\<lambda>l. l @ NL)
         [''scalar JSON'', [],
          ''type Post {'', ''  id: String!'', ''  authorId: String!'', ''}'', [],
          ''input PostInput {'', ''  id: String!'', ''  authorId: String!'', ''}'', [], [],
          ''            type Query {'',
          ''  post(id: String!): Post'',
          ''  postList(where: JSON, limit: Int, offset: Int, order: String): [Post]'', [],
          ''            }'',
          ''            type Mutation {'',
          ''  createPost(input: PostInput!): Post'',
          ''  updatePost(id: String!, input: PostInput!): Post'',
          ''  deletePost(id: String!): Boolean'', [],
          ''            }'',
          ''            type Subscription {'',
          ''  postCreated: Post'', ''  postUpdated: Post'', ''  postDeleted(id: String!): Post'', [],
          ''            }'']) @ ''        ''"
proof -
  have a: "sm_name postModel @ ''.'' @ ''title'' \<in> set (blackList blacklistHelper)
           \<or> ''title'' \<in> set (blackList blacklistHelper)
           \<or> sm_name postModel \<in> set (blackList blacklistHelper)"
    by code_simp
  have b: "sm_name postModel @ ''.'' @ ''title'' \<in> set (blackList blacklistFieldHelper)
           \<or> ''title'' \<in> set (blackList blacklistFieldHelper)
           \<or> sm_name postModel \<in> set (blackList blacklistFieldHelper)"
    by code_simp
  have c: "sm_name postModel @ ''.'' @ ''id'' \<in> set (blackList blacklistModelHelper)
           \<or> ''id'' \<in> set (blackList blacklistModelHelper)
           \<or> sm_name postModel \<in> set (blackList blacklistModelHelper)"
    by code_simp
  have d: "sm_name postModel @ ''.'' @ ''title'' \<in> set (blackList blacklistHelper)
     \<and> ''title'' \<in> set (blackList blacklistFieldHelper)
     \<and> sm_name postModel \<in> set (blackList blacklistModelHelper)
     \<and> map snd (models blacklistHelper) = [postModel]
     \<and> map snd (models blacklistFieldHelper) = [postModel]
     \<and> map snd (models blacklistModelHelper) = [postModel]
     \<and> map fst (sm_attributes postModel) = [''id'', ''title'', ''authorId'']"
    by code_simp
  have e: "generateModelType blacklistHelper (withoutField ''title'' postModel)
       = concat (map (\<lambda>l. l @ NL) [''type Post {'', ''  id: String!'', ''  authorId: String!'', ''}''])
     \<and> generateModelInputType blacklistHelper (withoutField ''title'' postModel)
       = concat (map (\<lambda>l. l @ NL) [''input PostInput {'', ''  id: String!'', ''  authorId: String!'', ''}''])
     \<and> generateModelType blacklistFieldHelper (withoutField ''title'' postModel)
       = concat (map (\<lambda>l. l @ NL) [''type Post {'', ''  id: String!'', ''  authorId: String!'', ''}''])
     \<and> generateModelInputType blacklistFieldHelper (withoutField ''title'' postModel)
       = concat (map (\<lambda>l. l @ NL) [''input PostInput {'', ''  id: String!'', ''  authorId: String!'', ''}''])
     \<and> generateModelType blacklistModelHelper postModel
       = concat (map (\<lambda>l. l @ NL) [''type Post {'', ''}''])
     \<and> generateModelInputType blacklistModelHelper postModel
       = concat (map (\<lambda>l. l @ NL) [''input PostInput {'', ''}''])"
    by code_simp
  have f: "typeDefs (fst (getSchema (dropField (sm_name postModel) ''title'' blacklistHelper))) =
       concat (map (\<lambda>l. l @ NL)
         [''scalar JSON'', [],
          ''type Post {'', ''  id: String!'', ''  authorId: String!'', ''}'', [],
          ''input PostInput {'', ''  id: String!'', ''  authorId: String!'', ''}'', [], [],
          ''            type Query {'',
          ''  post(id: String!): Post'',
          ''  postList(where: JSON, limit: Int, offset: Int, order: String): [Post]'', [],
          ''            }'',
          ''            type Mutation {'',
          ''  createPost(input: PostInput!): Post'',
          ''  updatePost(id: String!, input: PostInput!): Post'',
          ''  deletePost(id: String!): Boolean'', [],
          ''            }'',
          ''            type Subscription {'',
          ''  postCreated: Post'', ''  postUpdated: Post'', ''  postDeleted(id: String!): Post'', [],
          ''            }'']) @ ''        ''"
    by code_simp
  note t1 = C6_blacklisted_field_absent [OF a]
  note t2 = C6_blacklisted_field_absent [OF b]
  note t3 = C6_blacklisted_field_absent [OF c]
  have g: "generateModelType blacklistHelper postModel
             = generateModelType blacklistHelper (withoutField ''title'' postModel)"
          "generateModelInputType blacklistHelper postModel
             = generateModelInputType blacklistHelper (withoutField ''title'' postModel)"
          "generateModelType blacklistFieldHelper postModel
             = generateModelType blacklistFieldHelper (withoutField ''title'' postModel)"
          "generateModelInputType blacklistFieldHelper postModel
             = generateModelInputType blacklistFieldHelper (withoutField ''title'' postModel)"
          "generateModelType blacklistModelHelper postModel
             = generateModelType blacklistModelHelper (withoutField ''id'' postModel)"
          "typeDefs (fst (getSchema blacklistHelper))
             = typeDefs (fst (getSchema (dropField (sm_name postModel) ''title'' blacklistHelper)))"
    using t1 t2 t3 by blast+
  show ?thesis
    using d e f g by (simp only:)
qed

section \<open>Nullability\<close>

lemma set_map_filter: "set (List.map_filter f xs) = {y. \<exists>x \<in> set xs. f x = Some y}"
  by (induction xs) (auto split: option.splits)

lemma attribute_field:
  assumes "convertSequelizeAttributeToGraphQLField n attr fc = Some fld"
  shows "gf_name fld = n \<and> \<not> isRelation fld
       \<and> isNullable fld = (case Option.bind fc fc_nullable of
                             Some b \<Rightarrow> b | None \<Rightarrow> at_allowNull attr \<noteq> Some False)"
  using assms by (auto simp: convertSequelizeAttributeToGraphQLField_def Let_def)

lemma association_field:
  assumes "convertSequelizeAssociationToGraphQLField n assoc fc = Some fld"
  shows "gf_name fld = n \<and> isRelation fld
       \<and> isNullable fld = (case Option.bind fc fc_nullable of
                             Some b \<Rightarrow> b | None \<Rightarrow> as_associationType assoc \<noteq> ''BelongsTo'')"
  using assms
  by (auto simp: convertSequelizeAssociationToGraphQLField_def Let_def
      split: option.splits if_splits)

lemma extractOne_Some:
  assumes "extractOne h modelName fcs convert (n, d) = Some fld"
  shows "convert n d (map_of fcs n) = Some fld"
  using assms by (auto simp: extractOne_def Let_def split: if_splits)

lemma base_type_no_mark:
  "map_of sequelizeToGraphQLTypes s = Some g \<Longrightarrow> g \<noteq> [] \<and> last g \<noteq> CHR ''!''"
  by (auto simp: sequelizeToGraphQLTypes_def split: if_splits)

lemma getGraphQLType_mark:
  assumes "\<not> truthyStr (fc_customType cfg)"
  shows "(last (getGraphQLType attr cfg) = CHR ''!'')
         = (fc_nullable cfg \<noteq> Some True \<and> at_allowNull attr \<noteq> Some True)"
  using assms
  by (auto simp: getGraphQLType_def Let_def dest: base_type_no_mark split: option.splits)

text \<open>
  C8, as amended. In GraphQLHelper every generated field has its nullability decided as
  the claim says: an explicit \<^verbatim>\<open>nullable\<close> of the field's configuration wins; otherwise an
  attribute is non-null exactly when its \<^verbatim>\<open>allowNull\<close> is false, and an association is
  non-null exactly when it is a \<^verbatim>\<open>BelongsTo\<close>; the non-null mark is printed accordingly.
  In GraphQLSchemaGenerator an attribute without a custom type carries the non-null mark
  exactly when neither \<^verbatim>\<open>fieldConfig.nullable\<close> nor \<^verbatim>\<open>attribute.allowNull\<close> is true, and an
  association is printed as the bare target or the bracketed target, never with the mark.
\<close>

theorem C8_nullability:
  "(fld \<in> set (extractModelFields h model) \<longrightarrow>
      (\<not> isRelation fld
       \<and> (\<exists>attr. (gf_name fld, attr) \<in> set (sm_attributes model)
             \<and> isNullable fld
                = (case Option.bind (map_of (fieldConfigsOf h (sm_name model)) (gf_name fld))
                          fc_nullable of
                     Some b \<Rightarrow> b
                   | None \<Rightarrow> at_allowNull attr \<noteq> Some False)))
      \<or> (isRelation fld
          \<and> (\<exists>assoc. (gf_name fld, assoc) \<in> set (sm_associations model)
                \<and> isNullable fld
                   = (case Option.bind (map_of (fieldConfigsOf h (sm_name model)) (gf_name fld))
                             fc_nullable of
                        Some b \<Rightarrow> b
                      | None \<Rightarrow> as_associationType assoc \<noteq> ''BelongsTo''))))
   \<and> fieldTypeText fld
       = (if isList fld then ''['' @ gf_type fld @ '']'' else gf_type fld)
         @ (if isNullable fld then [] else ''!'')
   \<and> (\<not> truthyStr (fc_customType cfg) \<longrightarrow>
        (last (getGraphQLType attr cfg) = CHR ''!'')
        = (fc_nullable cfg \<noteq> Some True \<and> at_allowNull attr \<noteq> Some True))
   \<and> (getAssociationType assoc = Some t \<longrightarrow>
        (\<exists>target. as_target assoc = Some target \<and> (t = target \<or> t = ''['' @ target @ '']'')))"
proof (intro conjI impI)
  assume mem: "fld \<in> set (extractModelFields h model)"
  let ?fcs = "fieldConfigsOf h (sm_name model)"
  from mem consider
      (attr) n a where "(n, a) \<in> set (sm_attributes model)"
        "extractOne h (sm_name model) ?fcs convertSequelizeAttributeToGraphQLField (n, a) = Some fld"
    | (assoc) n a where "(n, a) \<in> set (sm_associations model)"
        "extractOne h (sm_name model) ?fcs convertSequelizeAssociationToGraphQLField (n, a) = Some fld"
    by (auto simp: extractModelFields_def Let_def set_map_filter)
  then show "(\<not> isRelation fld
       \<and> (\<exists>attr. (gf_name fld, attr) \<in> set (sm_attributes model)
             \<and> isNullable fld
                = (case Option.bind (map_of ?fcs (gf_name fld)) fc_nullable of
                     Some b \<Rightarrow> b
                   | None \<Rightarrow> at_allowNull attr \<noteq> Some False)))
      \<or> (isRelation fld
          \<and> (\<exists>assoc. (gf_name fld, assoc) \<in> set (sm_associations model)
                \<and> isNullable fld
                   = (case Option.bind (map_of ?fcs (gf_name fld)) fc_nullable of
                        Some b \<Rightarrow> b
                      | None \<Rightarrow> as_associationType assoc \<noteq> ''BelongsTo'')))"
  proof cases
    case attr
    from attribute_field [OF extractOne_Some [OF attr(2)]] attr(1)
    show ?thesis by auto
  next
    case assoc
    from association_field [OF extractOne_Some [OF assoc(2)]] assoc(1)
    show ?thesis by auto
  qed
next
  show "fieldTypeText fld
       = (if isList fld then ''['' @ gf_type fld @ '']'' else gf_type fld)
         @ (if isNullable fld then [] else ''!'')"
    by (simp add: fieldTypeText_def Let_def)
next
  assume "\<not> truthyStr (fc_customType cfg)"
  then show "(last (getGraphQLType attr cfg) = CHR ''!'')
        = (fc_nullable cfg \<noteq> Some True \<and> at_allowNull attr \<noteq> Some True)"
    by (rule getGraphQLType_mark)
next
  assume "getAssociationType assoc = Some t"
  then show "\<exists>target. as_target assoc = Some target \<and> (t = target \<or> t = ''['' @ target @ '']'')"
    by (auto simp: getAssociationType_def split: option.splits if_splits)
qed

text \<open>
  Post with \<^verbatim>\<open>nullable: false\<close> on \<^verbatim>\<open>title\<close>, whose attribute does not forbid null: in
  GraphQLHelper the explicit setting wins and the field prints as \<^verbatim>\<open>String!\<close>.
\<close>

theorem C8_nullability_witness:
  "titleField \<in> set (extractModelFields strictTitleHelper postModel)
   \<and> \<not> isNullable titleField
   \<and> map_of (sm_attributes postModel) ''title'' = Some (stringAttr None)
   \<and> Option.bind (map_of (fieldConfigsOf strictTitleHelper ''Post'') ''title'') fc_nullable
       = Some False
   \<and> fieldTypeText titleField = ''String!''
   \<and> \<not> truthyStr (fc_customType emptyFieldConfig)
   \<and> getGraphQLType (stringAttr (Some False)) emptyFieldConfig = ''String!''
   \<and> getAssociationType authorAssociation = Some ''User''"
proof -
  have a: "titleField \<in> set (extractModelFields strictTitleHelper postModel)"
    by code_simp
  have b: "map_of (sm_attributes postModel) ''title'' = Some (stringAttr None)
     \<and> Option.bind (map_of (fieldConfigsOf strictTitleHelper ''Post'') ''title'') fc_nullable
         = Some False
     \<and> \<not> truthyStr (fc_customType emptyFieldConfig)
     \<and> getGraphQLType (stringAttr (Some False)) emptyFieldConfig = ''String!''
     \<and> getAssociationType authorAssociation = Some ''User''"
    by code_simp
  have c: "\<not> isNullable titleField" "\<not> isList titleField" "gf_type titleField = ''String''"
    by (simp_all add: titleField_def)
  show ?thesis
    using a b c
      C8_nullability [of titleField strictTitleHelper postModel emptyFieldConfig
        "stringAttr (Some False)" authorAssociation "''User''"]
    by simp
qed

text \<open>
  C8 as stated fails on GraphQLSchemaGenerator: \<^verbatim>\<open>nullable: false\<close> on an attribute with
  \<^verbatim>\<open>allowNull: true\<close> does not make the field non-null, and a \<^verbatim>\<open>BelongsTo\<close> association is
  printed without the non-null mark.
\<close>

theorem C8_counterexample:
  "fc_nullable (emptyFieldConfig \<lparr> fc_nullable := Some False \<rparr>) = Some False
   \<and> getGraphQLType (stringAttr (Some True)) (emptyFieldConfig \<lparr> fc_nullable := Some False \<rparr>)
       = ''String''
   \<and> as_associationType authorAssociation = ''BelongsTo''
   \<and> getAssociationType authorAssociation = Some ''User''"
  by code_simp

section \<open>Operations by default\<close>


































text \<open>
  Why no generated model may bear the name of a root type: the loop over the models ends
  each iteration with \<^verbatim>\<open>resolvers[modelName] = this.generateFieldResolvers(model)\<close>, so a model
  named \<^verbatim>\<open>Mutation\<close> replaces the map of mutation resolvers by its own field resolvers, and
  the mutation resolvers of the models before it are gone, while their fields stay printed.
\<close>

lemma root_named_model_shadows:
  "map fst (includedModels shadowedHelper) = [''Post'', ''Mutation'']
   \<and> Option.bind (modelConfigOf shadowedHelper ''Post'') operations = None
   \<and> concat (mutationFields shadowedHelper)
       = concat (map (\<lambda>l. l @ NL)
           [''  createPost(input: PostInput!): Post'',
            ''  updatePost(id: String!, input: PostInput!): Post'',
            ''  deletePost(id: String!): Boolean'',
            ''  createMutation(input: MutationInput!): Mutation'',
            ''  updateMutation(id: String!, input: MutationInput!): Mutation'',
            ''  deleteMutation(id: String!): Boolean''])
   \<and> sectionOf (resolvers (fst (getSchema shadowedHelper))) ''Mutation'' = []"
  by code_simp

end
